theory Spec2Isabelle
  imports Main
begin

section \<open>Configuration (config/config.go)\<close>

text \<open>
  \<open>RepositoryConfig\<close> and \<open>AppConfig\<close> are the two structs of the package. Go's
  \<open>int\<close> is modelled by \<open>int\<close>: the loader only compares the interval with zero and
  overwrites it with a constant, so no arithmetic can overflow.
\<close>

record RepositoryConfig =
  BasePath :: string
  GitURL :: string
  CloneDirName :: string
  Branch :: string
  ServiceName :: string
  ComposeFile :: string
  CheckIntervalSeconds :: int

record AppConfig =
  Repositories :: "RepositoryConfig list"

definition DefaultCheckIntervalSeconds :: int where
  "DefaultCheckIntervalSeconds = 5 * 60"

definition DefaultComposeFile :: string where
  "DefaultComposeFile = ''docker-compose.yml''"

text \<open>
  Errors of the operating system as the code inspects them: \<open>os.IsNotExist\<close> is the only
  test it ever applies, so an error is either "does not exist" or anything else (with its
  message).
\<close>

datatype os_error = ErrNotExist | ErrOther string

fun IsNotExist :: "os_error option \<Rightarrow> bool" where
  "IsNotExist (Some ErrNotExist) = True"
| "IsNotExist _ = False"

text \<open>One constructor for every \<open>return nil, fmt.Errorf(...)\<close> of \<open>LoadConfig\<close>.\<close>

datatype config_error =
    EmptyConfigPath
  | ConfigAbsFailed string os_error
  | ConfigNotFound string
  | ConfigReadFailed string os_error
  | ConfigUnmarshalFailed string string
  | MissingBasePath nat
  | MissingGitURL string string
  | MissingCloneDirName string
  | MissingBranch string string
  | MissingServiceName string string

text \<open>
  What \<open>LoadConfig\<close> takes from outside the repository: \<open>filepath.Abs\<close>,
  \<open>os.ReadFile\<close> and \<open>yaml.Unmarshal\<close> (which leaves an absent field at Go's zero
  value: the empty string, the integer 0).
\<close>

record config_env =
  cfg_Abs :: "string \<Rightarrow> os_error + string"
  cfg_ReadFile :: "string \<Rightarrow> os_error + string"
  cfg_Unmarshal :: "string \<Rightarrow> string + AppConfig"

text \<open>
  The loop \<open>for i := range cfg.Repositories\<close>: entry \<open>i\<close> is validated, then defaulted
  in place; the first invalid entry makes the whole load fail.
\<close>

fun apply_defaults :: "nat \<Rightarrow> RepositoryConfig list \<Rightarrow> config_error + RepositoryConfig list" where
  "apply_defaults i [] = Inr []"
| "apply_defaults i (repo # rest) =
     (if BasePath repo = [] then Inl (MissingBasePath i)
      else if GitURL repo = [] then Inl (MissingGitURL (BasePath repo) (CloneDirName repo))
      else if CloneDirName repo = [] then Inl (MissingCloneDirName (GitURL repo))
      else if Branch repo = [] then Inl (MissingBranch (BasePath repo) (CloneDirName repo))
      else if ServiceName repo = [] then Inl (MissingServiceName (BasePath repo) (CloneDirName repo))
      else
        let repo1 = (if ComposeFile repo = [] then repo\<lparr>ComposeFile := DefaultComposeFile\<rparr> else repo);
            repo2 = (if CheckIntervalSeconds repo1 \<le> 0
                     then repo1\<lparr>CheckIntervalSeconds := DefaultCheckIntervalSeconds\<rparr> else repo1)
        in (case apply_defaults (Suc i) rest of
              Inl e \<Rightarrow> Inl e
            | Inr rest' \<Rightarrow> Inr (repo2 # rest')))"

definition LoadConfig :: "config_env \<Rightarrow> string \<Rightarrow> config_error + AppConfig" where
  "LoadConfig ce filePath =
     (if filePath = [] then Inl EmptyConfigPath
      else case cfg_Abs ce filePath of
        Inl e \<Rightarrow> Inl (ConfigAbsFailed filePath e)
      | Inr absFilePath \<Rightarrow>
         (case cfg_ReadFile ce absFilePath of
            Inl e \<Rightarrow> (if IsNotExist (Some e) then Inl (ConfigNotFound absFilePath)
                      else Inl (ConfigReadFailed absFilePath e))
          | Inr data \<Rightarrow>
             (case cfg_Unmarshal ce data of
                Inl msg \<Rightarrow> Inl (ConfigUnmarshalFailed absFilePath msg)
              | Inr cfg \<Rightarrow>
                 (case apply_defaults 0 (Repositories cfg) of
                    Inl e \<Rightarrow> Inl e
                  | Inr repos \<Rightarrow> Inr (cfg\<lparr>Repositories := repos\<rparr>)))))"

section \<open>The process runner (executor/executor.go)\<close>

text \<open>
  \<open>Execute\<close> returns \<open>(stdout, stderr, exitCode, err)\<close>. The error of
  \<open>OSCommandExecutor\<close> is one of its two \<open>fmt.Errorf\<close> values, kept here with the
  arguments of the format instead of the formatted text; \<open>RunnerError\<close> stands for the
  error of any other implementation of the \<open>CommandExecutor\<close> interface.
\<close>

datatype run_error = ExitError "int option" | OtherRunError string

datatype exec_error =
    CommandFailed string "string list" int run_error string
  | FailedToRun string "string list" run_error string
  | RunnerError string

record exec_result =
  Stdout :: string
  Stderr :: string
  ExitCode :: int
  Err :: "exec_error option"

text \<open>
  What \<open>cmd.Run()\<close> leaves behind: the two captured buffers, the error (nil, an
  \<open>*exec.ExitError\<close> with the exit status of its \<open>syscall.WaitStatus\<close> when it has one, or
  any other error), and the exit status of \<open>cmd.ProcessState\<close>, read on success only.
\<close>

record run_outcome =
  outBuf :: string
  errBuf :: string
  run_err :: "run_error option"
  state_status :: "int option"

definition os_result :: "string \<Rightarrow> string list \<Rightarrow> run_outcome \<Rightarrow> exec_result" where
  "os_result command args oc =
     (case run_err oc of
        Some (ExitError st) \<Rightarrow>
          (let exitCode = (case st of Some c \<Rightarrow> c | None \<Rightarrow> - 1) in
           \<lparr>Stdout = outBuf oc, Stderr = errBuf oc, ExitCode = exitCode,
            Err = Some (CommandFailed command args exitCode (ExitError st) (errBuf oc))\<rparr>)
      | Some (OtherRunError m) \<Rightarrow>
          \<lparr>Stdout = outBuf oc, Stderr = errBuf oc, ExitCode = - 1,
           Err = Some (FailedToRun command args (OtherRunError m) (errBuf oc))\<rparr>
      | None \<Rightarrow>
          \<lparr>Stdout = outBuf oc, Stderr = errBuf oc,
           ExitCode = (case state_status oc of Some c \<Rightarrow> c | None \<Rightarrow> 0),
           Err = None\<rparr>)"

text \<open>
  \<open>OSCommandExecutor.Execute\<close> over a world \<open>'w\<close>: \<open>run\<close> is \<open>exec.CommandContext\<close>
  followed by \<open>cmd.Run()\<close> in the given directory.
\<close>

definition OSExecute ::
  "('w \<Rightarrow> string \<Rightarrow> string \<Rightarrow> string list \<Rightarrow> run_outcome \<times> 'w) \<Rightarrow>
   'w \<Rightarrow> string \<Rightarrow> string \<Rightarrow> string list \<Rightarrow> exec_result \<times> 'w" where
  "OSExecute run w workingDir command args =
     (let (oc, w') = run w workingDir command args in (os_result command args oc, w'))"

text \<open>The test \<open>err != nil || exitCode != 0\<close> that seven call sites apply to a result.\<close>

definition failed :: "exec_result \<Rightarrow> bool" where
  "failed res \<longleftrightarrow> Err res \<noteq> None \<or> ExitCode res \<noteq> 0"

section \<open>The environment of a repository controller\<close>

text \<open>
  Everything a controller reaches outside itself. The world \<open>'w\<close> is whatever the
  outside is made of; every call that can take time returns the world it leaves behind,
  so the context may be cancelled while any of them runs.
  \<^item> \<open>Execute\<close> is \<open>r.Executor.Execute(ctx, ...)\<close>, any implementation of the interface.
  \<^item> \<open>ctx_Err\<close> is \<open>ctx.Err()\<close>; \<open>ctx.Done()\<close> is closed exactly when it is not nil.
  \<^item> \<open>await_timer\<close> and \<open>await_tick\<close> are the two \<open>select\<close> statements, seen from
    outside: the world in which the \<open>select\<close> returns, whether the timer (ticker) channel
    is ready there, and the case the Go runtime picks should both cases be ready.
  \<^item> The functions of \<open>path/filepath\<close>, \<open>os\<close> and \<open>strings\<close> are taken as they are.
  Log output is not modelled.
\<close>

datatype ctx_error = Canceled | DeadlineExceeded

datatype branch = ChanCase | DoneCase

record 'w env =
  Execute :: "'w \<Rightarrow> string \<Rightarrow> string \<Rightarrow> string list \<Rightarrow> exec_result \<times> 'w"
  os_Stat :: "'w \<Rightarrow> string \<Rightarrow> os_error option \<times> 'w"
  os_MkdirAll :: "'w \<Rightarrow> string \<Rightarrow> os_error option \<times> 'w"
  filepath_Abs :: "'w \<Rightarrow> string \<Rightarrow> os_error + string"
  filepath_Join :: "string \<Rightarrow> string \<Rightarrow> string"
  filepath_IsAbs :: "string \<Rightarrow> bool"
  strings_TrimSpace :: "string \<Rightarrow> string"
  ctx_Err :: "'w \<Rightarrow> ctx_error option"
  await_timer :: "'w \<Rightarrow> nat \<Rightarrow> (bool \<times> branch) \<times> 'w"
  await_tick :: "'w \<Rightarrow> (bool \<times> branch) \<times> 'w"

text \<open>
  The observable actions of a controller, in the order they happen: a call of
  \<open>Execute\<close> (with the call site it comes from, the working directory, the command and
  its arguments), the settle wait of deploy, the wait for the next tick, and the start of a
  process-once cycle by the monitoring loop.
\<close>

datatype site =
  Clone | Fetch | RevParseLocal | RevParseRemote | MergeBase | Pull | Build | ScaleUp | ScaleDown

datatype event =
    Exec site string string "string list"
  | SettleWait
  | TickWait
  | Cycle

record 'w sys =
  world :: 'w
  trace :: "event list"

definition exec_at ::
  "'w env \<Rightarrow> site \<Rightarrow> 'w sys \<Rightarrow> string \<Rightarrow> string \<Rightarrow> string list \<Rightarrow> exec_result \<times> 'w sys" where
  "exec_at env st \<sigma> workingDir command args =
     (let (res, w') = Execute env (world \<sigma>) workingDir command args
      in (res, \<lparr>world = w', trace = trace \<sigma> @ [Exec st workingDir command args]\<rparr>))"

text \<open>
  A \<open>select\<close> over a channel and \<open>ctx.Done()\<close>: with both ready the runtime's pick
  decides (Go chooses among the cases that can proceed by a uniform pseudo-random
  selection, whatever their order in the source), otherwise the ready case is taken (a
  \<open>select\<close> that has returned while \<open>ctx.Done()\<close> is open has taken the channel).
\<close>

definition go_select :: "bool \<Rightarrow> bool \<Rightarrow> branch \<Rightarrow> branch" where
  "go_select chan_ready done_ready pick =
     (if chan_ready \<and> done_ready then pick
      else if done_ready then DoneCase
      else ChanCase)"

definition select_settle :: "'w env \<Rightarrow> nat \<Rightarrow> 'w sys \<Rightarrow> branch \<times> 'w sys" where
  "select_settle env seconds \<sigma> =
     (let ((ready, pick), w') = await_timer env (world \<sigma>) seconds
      in (go_select ready (ctx_Err env w' \<noteq> None) pick,
          \<lparr>world = w', trace = trace \<sigma> @ [SettleWait]\<rparr>))"

definition select_tick :: "'w env \<Rightarrow> 'w sys \<Rightarrow> branch \<times> 'w sys" where
  "select_tick env \<sigma> =
     (let ((ready, pick), w') = await_tick env (world \<sigma>)
      in (go_select ready (ctx_Err env w' \<noteq> None) pick,
          \<lparr>world = w', trace = trace \<sigma> @ [TickWait]\<rparr>))"

section \<open>The repository controller (package repository)\<close>

text \<open>
  The struct \<open>Repository\<close>: its \<open>Executor\<close> is the \<open>Execute\<close> of the environment, its
  logger is not modelled. \<open>NewRepository\<close> leaves the path empty and the flag false.
\<close>

record Repository =
  Config :: RepositoryConfig
  workingPath :: string
  isInitialised :: bool

definition NewRepository :: "RepositoryConfig \<Rightarrow> Repository" where
  "NewRepository cfg = \<lparr>Config = cfg, workingPath = [], isInitialised = False\<rparr>"

text \<open>
  One constructor for every error the package returns, named after the place that returns
  it and holding the arguments of its format (\<open>%w\<close> is the wrapped error). The errors built
  from a result of \<open>Execute\<close> are those of the clone, fetch, rev-parse, merge-base, pull,
  build and scale commands; \<open>ErrContext\<close> is \<open>ctx.Err()\<close> returned as it is.
\<close>

datatype error =
    ErrEmptyPathConfig
  | ErrAbsBasePath string os_error
  | ErrWorkingPath error
  | ErrStatGitDir string os_error
  | ErrCreateBasePath string os_error
  | ErrCheckBasePath string os_error
  | ErrCloneExecution exec_error
  | ErrCloneExit int string
  | ErrCheckNotInitialized
  | ErrFetch int "exec_error option" string
  | ErrLocalHead int "exec_error option" string
  | ErrRemoteCommit string int "exec_error option" string
  | ErrMergeBase int "exec_error option" string
  | ErrPullNotInitialized
  | ErrPull int "exec_error option" string
  | ErrBuildNotInitialised
  | ErrBuild int "exec_error option" string
  | ErrDeployNotInitialised
  | ErrScaleUp int "exec_error option" string
  | ErrScaleDown int "exec_error option" string
  | ErrContext ctx_error
  | ErrInitialize error
  | ErrUpdateCheck error
  | ErrPullChanges error
  | ErrBuildContainers error
  | ErrDeployContainers error

definition getWorkingPath :: "'w env \<Rightarrow> Repository \<Rightarrow> 'w \<Rightarrow> (error + string) \<times> Repository" where
  "getWorkingPath env r w =
     (if workingPath r \<noteq> [] then (Inr (workingPath r), r)
      else if BasePath (Config r) = [] \<or> CloneDirName (Config r) = [] then (Inl ErrEmptyPathConfig, r)
      else case filepath_Abs env w (BasePath (Config r)) of
        Inl e \<Rightarrow> (Inl (ErrAbsBasePath (BasePath (Config r)) e), r)
      | Inr absBasePath \<Rightarrow>
          (let p = filepath_Join env absBasePath (CloneDirName (Config r))
           in (Inr p, r\<lparr>workingPath := p\<rparr>)))"

text \<open>
  \<open>workDir, _ := r.getWorkingPath()\<close>: the error is dropped, and with it comes the
  empty string.
\<close>

fun path_or_empty :: "error + string \<Rightarrow> string" where
  "path_or_empty (Inr p) = p"
| "path_or_empty (Inl e) = []"

text \<open>The end of \<open>ensureCloned\<close>, from the clone command on.\<close>

definition runClone :: "'w env \<Rightarrow> Repository \<Rightarrow> 'w sys \<Rightarrow> (error + unit) \<times> Repository \<times> 'w sys" where
  "runClone env r \<sigma> =
     (let args = [''clone'', ''-b'', Branch (Config r), GitURL (Config r), CloneDirName (Config r)];
          (res, \<sigma>1) = exec_at env Clone \<sigma> (BasePath (Config r)) ''git'' args
      in case Err res of
           Some e \<Rightarrow> (Inl (ErrCloneExecution e), r, \<sigma>1)
         | None \<Rightarrow>
             if ExitCode res \<noteq> 0 then (Inl (ErrCloneExit (ExitCode res) (Stderr res)), r, \<sigma>1)
             else (Inr (), r\<lparr>isInitialised := True\<rparr>, \<sigma>1))"

definition ensureCloned :: "'w env \<Rightarrow> Repository \<Rightarrow> 'w sys \<Rightarrow> (error + unit) \<times> Repository \<times> 'w sys" where
  "ensureCloned env r \<sigma> =
     (if isInitialised r then (Inr (), r, \<sigma>)
      else case getWorkingPath env r (world \<sigma>) of
        (Inl e, r1) \<Rightarrow> (Inl (ErrWorkingPath e), r1, \<sigma>)
      | (Inr workDir, r1) \<Rightarrow>
          (let gitDirPath = filepath_Join env workDir ''.git'';
               (st, w1) = os_Stat env (world \<sigma>) gitDirPath;
               \<sigma>1 = \<sigma>\<lparr>world := w1\<rparr>
           in case st of
                None \<Rightarrow> (Inr (), r1\<lparr>isInitialised := True\<rparr>, \<sigma>1)
              | Some e \<Rightarrow>
                  if \<not> IsNotExist (Some e) then (Inl (ErrStatGitDir gitDirPath e), r1, \<sigma>1)
                  else
                    (let (st2, w2) = os_Stat env w1 (BasePath (Config r1));
                         \<sigma>2 = \<sigma>1\<lparr>world := w2\<rparr>
                     in if IsNotExist st2 then
                          (let (mk, w3) = os_MkdirAll env w2 (BasePath (Config r1));
                               \<sigma>3 = \<sigma>2\<lparr>world := w3\<rparr>
                           in case mk of
                                Some e3 \<Rightarrow> (Inl (ErrCreateBasePath (BasePath (Config r1)) e3), r1, \<sigma>3)
                              | None \<Rightarrow> runClone env r1 \<sigma>3)
                        else case st2 of
                          Some e2 \<Rightarrow> (Inl (ErrCheckBasePath (BasePath (Config r1)) e2), r1, \<sigma>2)
                        | None \<Rightarrow> runClone env r1 \<sigma>2)))"

definition CheckForUpdates :: "'w env \<Rightarrow> Repository \<Rightarrow> 'w sys \<Rightarrow> (error + bool) \<times> Repository \<times> 'w sys" where
  "CheckForUpdates env r \<sigma> =
     (if \<not> isInitialised r then (Inl ErrCheckNotInitialized, r, \<sigma>)
      else
        let (pr, r1) = getWorkingPath env r (world \<sigma>);
            workDir = path_or_empty pr;
            (f, \<sigma>1) = exec_at env Fetch \<sigma> workDir ''git''
                         [''fetch'', ''origin'', Branch (Config r1), ''--prune'']
        in if failed f then (Inl (ErrFetch (ExitCode f) (Err f) (Stderr f)), r1, \<sigma>1)
        else
        let (l, \<sigma>2) = exec_at env RevParseLocal \<sigma>1 workDir ''git'' [''rev-parse'', ''HEAD'']
        in if failed l then (Inl (ErrLocalHead (ExitCode l) (Err l) (Stderr l)), r1, \<sigma>2)
        else
        let localCommit = strings_TrimSpace env (Stdout l);
            remoteRef = ''origin/'' @ Branch (Config r1);
            (m, \<sigma>3) = exec_at env RevParseRemote \<sigma>2 workDir ''git'' [''rev-parse'', remoteRef]
        in if failed m then (Inl (ErrRemoteCommit remoteRef (ExitCode m) (Err m) (Stderr m)), r1, \<sigma>3)
        else
        let remoteCommit = strings_TrimSpace env (Stdout m)
        in if localCommit = remoteCommit then (Inr False, r1, \<sigma>3)
        else
        let (a, \<sigma>4) = exec_at env MergeBase \<sigma>3 workDir ''git''
                         [''merge-base'', ''--is-ancestor'', localCommit, remoteCommit]
        in if Err a \<noteq> None \<and> ExitCode a \<noteq> 0 \<and> ExitCode a \<noteq> 1
           then (Inl (ErrMergeBase (ExitCode a) (Err a) (Stderr a)), r1, \<sigma>4)
           else if ExitCode a = 0 then (Inr True, r1, \<sigma>4)
           else (Inr False, r1, \<sigma>4))"

definition PullChanges :: "'w env \<Rightarrow> Repository \<Rightarrow> 'w sys \<Rightarrow> (error + unit) \<times> Repository \<times> 'w sys" where
  "PullChanges env r \<sigma> =
     (if \<not> isInitialised r then (Inl ErrPullNotInitialized, r, \<sigma>)
      else
        let (pr, r1) = getWorkingPath env r (world \<sigma>);
            workDir = path_or_empty pr;
            (res, \<sigma>1) = exec_at env Pull \<sigma> workDir ''git''
                           [''pull'', ''origin'', Branch (Config r1), ''--ff-only'']
        in if failed res then (Inl (ErrPull (ExitCode res) (Err res) (Stderr res)), r1, \<sigma>1)
           else (Inr (), r1, \<sigma>1))"

text \<open>
  The manifest path of build and deploy: \<open>r.Config.ComposeFile\<close>, joined to the working
  directory unless it is absolute.
\<close>

definition composeFilePath :: "'w env \<Rightarrow> Repository \<Rightarrow> string \<Rightarrow> string" where
  "composeFilePath env r workDir =
     (if \<not> filepath_IsAbs env (ComposeFile (Config r))
      then filepath_Join env workDir (ComposeFile (Config r))
      else ComposeFile (Config r))"

definition BuildContainers :: "'w env \<Rightarrow> Repository \<Rightarrow> 'w sys \<Rightarrow> (error + unit) \<times> Repository \<times> 'w sys" where
  "BuildContainers env r \<sigma> =
     (if \<not> isInitialised r then (Inl ErrBuildNotInitialised, r, \<sigma>)
      else
        let (pr, r1) = getWorkingPath env r (world \<sigma>);
            workDir = path_or_empty pr;
            args = [''compose'', ''-f'', composeFilePath env r1 workDir, ''build'', ''--pull''];
            args' = (if ServiceName (Config r1) \<noteq> [] then args @ [ServiceName (Config r1)] else args);
            (res, \<sigma>1) = exec_at env Build \<sigma> workDir ''docker'' args'
        in if failed res then (Inl (ErrBuild (ExitCode res) (Err res) (Stderr res)), r1, \<sigma>1)
           else (Inr (), r1, \<sigma>1))"

text \<open>\<open>%d\<close> of a number that is not negative.\<close>

fun decimal :: "nat \<Rightarrow> string" where
  "decimal n =
     (if n < 10 then [''0123456789'' ! n]
      else decimal (n div 10) @ [''0123456789'' ! (n mod 10)])"

definition initialScale :: nat where
  "initialScale = 1"

definition targetScaleUp :: nat where
  "targetScaleUp = initialScale + 1"

definition finalScale :: nat where
  "finalScale = initialScale"

definition healthCheckDelay :: nat where
  "healthCheckDelay = 30"

definition upArgs :: "string \<Rightarrow> string \<Rightarrow> string list" where
  "upArgs manifest serviceName =
     [''compose'', ''-f'', manifest, ''up'', ''-d'', ''--no-deps'',
      ''--scale'', serviceName @ ''='' @ decimal targetScaleUp, ''--no-recreate'', serviceName]"

definition downArgs :: "string \<Rightarrow> string \<Rightarrow> string list" where
  "downArgs manifest serviceName =
     [''compose'', ''-f'', manifest, ''up'', ''-d'',
      ''--scale'', serviceName @ ''='' @ decimal finalScale, ''--no-recreate'', serviceName]"

definition DeployContainers :: "'w env \<Rightarrow> Repository \<Rightarrow> 'w sys \<Rightarrow> (error + unit) \<times> Repository \<times> 'w sys" where
  "DeployContainers env r \<sigma> =
     (if \<not> isInitialised r then (Inl ErrDeployNotInitialised, r, \<sigma>)
      else
        let (pr, r1) = getWorkingPath env r (world \<sigma>);
            workDir = path_or_empty pr;
            manifest = composeFilePath env r1 workDir;
            serviceName = ServiceName (Config r1);
            (up, \<sigma>1) = exec_at env ScaleUp \<sigma> workDir ''docker'' (upArgs manifest serviceName)
        in if failed up then (Inl (ErrScaleUp (ExitCode up) (Err up) (Stderr up)), r1, \<sigma>1)
        else
        let (b, \<sigma>2) = select_settle env healthCheckDelay \<sigma>1
        in case b of
             DoneCase \<Rightarrow>
               ((case ctx_Err env (world \<sigma>2) of Some ce \<Rightarrow> Inl (ErrContext ce) | None \<Rightarrow> Inr ()),
                r1, \<sigma>2)
           | ChanCase \<Rightarrow>
               (let (down, \<sigma>3) = exec_at env ScaleDown \<sigma>2 workDir ''docker'' (downArgs manifest serviceName)
                in if failed down
                   then (Inl (ErrScaleDown (ExitCode down) (Err down) (Stderr down)), r1, \<sigma>3)
                   else (Inr (), r1, \<sigma>3)))"

text \<open>
  \<open>Process\<close>. Each \<open>if ctx.Err() != nil { ...; return ctx.Err() }\<close> reads the context
  of the world the step before it has left.
\<close>

definition Process :: "'w env \<Rightarrow> Repository \<Rightarrow> 'w sys \<Rightarrow> (error + unit) \<times> Repository \<times> 'w sys" where
  "Process env r \<sigma> =
     (case ensureCloned env r \<sigma> of
        (Inl e, r1, \<sigma>1) \<Rightarrow> (Inl (ErrInitialize e), r1, \<sigma>1)
      | (Inr u, r1, \<sigma>1) \<Rightarrow>
     (case ctx_Err env (world \<sigma>1) of
        Some ce \<Rightarrow> (Inl (ErrContext ce), r1, \<sigma>1)
      | None \<Rightarrow>
     (case CheckForUpdates env r1 \<sigma>1 of
        (Inl e, r2, \<sigma>2) \<Rightarrow> (Inl (ErrUpdateCheck e), r2, \<sigma>2)
      | (Inr updatesFound, r2, \<sigma>2) \<Rightarrow>
     (case ctx_Err env (world \<sigma>2) of
        Some ce \<Rightarrow> (Inl (ErrContext ce), r2, \<sigma>2)
      | None \<Rightarrow>
     if \<not> updatesFound then (Inr (), r2, \<sigma>2)
     else
     (case PullChanges env r2 \<sigma>2 of
        (Inl e, r3, \<sigma>3) \<Rightarrow> (Inl (ErrPullChanges e), r3, \<sigma>3)
      | (Inr u3, r3, \<sigma>3) \<Rightarrow>
     (case ctx_Err env (world \<sigma>3) of
        Some ce \<Rightarrow> (Inl (ErrContext ce), r3, \<sigma>3)
      | None \<Rightarrow>
     (case BuildContainers env r3 \<sigma>3 of
        (Inl e, r4, \<sigma>4) \<Rightarrow> (Inl (ErrBuildContainers e), r4, \<sigma>4)
      | (Inr u4, r4, \<sigma>4) \<Rightarrow>
     (case ctx_Err env (world \<sigma>4) of
        Some ce \<Rightarrow> (Inl (ErrContext ce), r4, \<sigma>4)
      | None \<Rightarrow>
     (case DeployContainers env r4 \<sigma>4 of
        (Inl e, r5, \<sigma>5) \<Rightarrow> (Inl (ErrDeployContainers e), r5, \<sigma>5)
      | (Inr u5, r5, \<sigma>5) \<Rightarrow>
     (case ctx_Err env (world \<sigma>5) of
        Some ce \<Rightarrow> (Inl (ErrContext ce), r5, \<sigma>5)
      | None \<Rightarrow> (Inr (), r5, \<sigma>5)))))))))))"

section \<open>The monitoring loop (watcher/watcher.go)\<close>

text \<open>
  The \<open>for { select { ... } }\<close> of \<open>monitorRepository\<close>. It may run forever, so it is a
  partial function: \<open>None\<close> is the loop that never returns. A failure of \<open>Process\<close> is
  logged and dropped.
\<close>

definition start_cycle :: "'w sys \<Rightarrow> 'w sys" where
  "start_cycle \<sigma> = \<sigma>\<lparr>trace := trace \<sigma> @ [Cycle]\<rparr>"

partial_function (option) monitor_loop ::
  "'w env \<Rightarrow> Repository \<Rightarrow> 'w sys \<Rightarrow> (Repository \<times> 'w sys) option" where
  "monitor_loop env r \<sigma> =
     (case select_tick env \<sigma> of
        (b, \<sigma>1) \<Rightarrow>
          if b = DoneCase then Some (r, \<sigma>1)
          else (case Process env r (start_cycle \<sigma>1) of
                  (res, r2, \<sigma>2) \<Rightarrow>
                    if ctx_Err env (world \<sigma>2) \<noteq> None then Some (r2, \<sigma>2)
                    else monitor_loop env r2 \<sigma>2))"

text \<open>
  \<open>monitorRepository\<close>: the first cycle, then the ticker and the loop.
  \<open>time.Duration(checkIntervalSec) * time.Second\<close> is a product of 64-bit integers, and
  \<open>time.NewTicker\<close> panics unless it is positive.
\<close>

datatype 'a outcome = Returned 'a | Panicked

definition int64 :: "int \<Rightarrow> int" where
  "int64 x = (x + 2 ^ 63) mod 2 ^ 64 - 2 ^ 63"

definition monitorRepository ::
  "'w env \<Rightarrow> Repository \<Rightarrow> int \<Rightarrow> 'w sys \<Rightarrow> (Repository \<times> 'w sys) outcome option" where
  "monitorRepository env r checkIntervalSec \<sigma> =
     (case Process env r (start_cycle \<sigma>) of
        (res, r1, \<sigma>1) \<Rightarrow>
          if ctx_Err env (world \<sigma>1) \<noteq> None then Some (Returned (r1, \<sigma>1))
          else if int64 (int64 checkIntervalSec * 1000000000) \<le> 0 then Some Panicked
          else map_option Returned (monitor_loop env r1 \<sigma>1))"

section \<open>Trace vocabulary\<close>

text \<open>
  The call sites of the events of a trace, the events a run has added to a trace, and the
  place of a call site in the sequence clone, fetch, rev-parse (local), rev-parse (remote),
  merge-base, pull, build, scale up, scale down.
\<close>

fun sites :: "event list \<Rightarrow> site list" where
  "sites [] = []"
| "sites (Exec st d c a # evs) = st # sites evs"
| "sites (ev # evs) = sites evs"

definition new_events :: "'w sys \<Rightarrow> 'w sys \<Rightarrow> event list" where
  "new_events \<sigma> \<sigma>' = drop (length (trace \<sigma>)) (trace \<sigma>')"

fun site_rank :: "site \<Rightarrow> nat" where
  "site_rank Clone = 0"
| "site_rank Fetch = 1"
| "site_rank RevParseLocal = 2"
| "site_rank RevParseRemote = 3"
| "site_rank MergeBase = 4"
| "site_rank Pull = 5"
| "site_rank Build = 6"
| "site_rank ScaleUp = 7"
| "site_rank ScaleDown = 8"

text \<open>
  \<open>extends lo hi \<sigma> \<sigma>'\<close>: the trace of \<open>\<sigma>'\<close> is the trace of \<open>\<sigma>\<close> with events added at
  its end, whose commands come from call sites between \<open>lo\<close> and \<open>hi\<close>, each at most
  once and in the order of the sequence.
\<close>

definition extends :: "nat \<Rightarrow> nat \<Rightarrow> 'w sys \<Rightarrow> 'w sys \<Rightarrow> bool" where
  "extends lo hi \<sigma> \<sigma>' \<longleftrightarrow>
     trace \<sigma>' = trace \<sigma> @ new_events \<sigma> \<sigma>' \<and>
     sorted_wrt (<) (map site_rank (sites (new_events \<sigma> \<sigma>'))) \<and>
     list_all (\<lambda>s. lo \<le> site_rank s \<and> site_rank s \<le> hi) (sites (new_events \<sigma> \<sigma>'))"

definition count_site :: "site \<Rightarrow> event list \<Rightarrow> nat" where
  "count_site st evs = length (filter (\<lambda>s. s = st) (sites evs))"

text \<open>The two errors of \<open>ensureCloned\<close> that come from the clone command.\<close>

fun clone_failed :: "error + unit \<Rightarrow> bool" where
  "clone_failed (Inl (ErrCloneExecution e)) = True"
| "clone_failed (Inl (ErrCloneExit c s)) = True"
| "clone_failed res = False"

section \<open>A scripted environment\<close>

text \<open>
  A concrete environment to run the controller in: the world is the number of calls made so
  far; commands are run by \<open>OSExecute\<close> and answered from a table keyed by a word of
  their arguments (a command not in the table succeeds with no output); \<open>os.Stat\<close>
  fails for the paths listed; the context is cancelled from world \<open>cancel_at\<close> on; a
  \<open>select\<close> finds its channel ready or not, with the given pick.
\<close>

definition ok_outcome :: "string \<Rightarrow> run_outcome" where
  "ok_outcome out = \<lparr>outBuf = out, errBuf = [], run_err = None, state_status = Some 0\<rparr>"

definition exit_outcome :: "int \<Rightarrow> string \<Rightarrow> run_outcome" where
  "exit_outcome c msg =
     \<lparr>outBuf = [], errBuf = msg, run_err = Some (ExitError (Some c)), state_status = Some c\<rparr>"

definition spawn_failure :: run_outcome where
  "spawn_failure =
     \<lparr>outBuf = [], errBuf = [], run_err = Some (OtherRunError ''executable file not found''),
      state_status = None\<rparr>"

fun scripted_answer :: "(string \<times> run_outcome) list \<Rightarrow> string list \<Rightarrow> run_outcome" where
  "scripted_answer [] args = ok_outcome []"
| "scripted_answer ((k, oc) # tbl) args = (if k \<in> set args then oc else scripted_answer tbl args)"

definition is_blank :: "char \<Rightarrow> bool" where
  "is_blank c \<longleftrightarrow> c \<in> set [CHR '' '', CHR 0x09, CHR 0x0A, CHR 0x0D]"

definition trim :: "string \<Rightarrow> string" where
  "trim s = rev (dropWhile is_blank (rev (dropWhile is_blank s)))"

definition scripted_env ::
  "(string \<times> run_outcome) list \<Rightarrow> (string \<times> os_error) list \<Rightarrow> nat \<Rightarrow> bool \<times> branch \<Rightarrow> nat env" where
  "scripted_env tbl missing cancel_at sel =
     \<lparr>Execute = OSExecute (\<lambda>w dir command args. (scripted_answer tbl args, Suc w)),
      os_Stat = (\<lambda>w p. (map_of missing p, Suc w)),
      os_MkdirAll = (\<lambda>w p. (None, Suc w)),
      filepath_Abs = (\<lambda>w p. Inr p),
      filepath_Join = (\<lambda>a b. a @ ''/'' @ b),
      filepath_IsAbs = (\<lambda>p. take 1 p = ''/''),
      strings_TrimSpace = trim,
      ctx_Err = (\<lambda>w. if cancel_at \<le> w then Some Canceled else None),
      await_timer = (\<lambda>w seconds. (sel, Suc w)),
      await_tick = (\<lambda>w. (sel, Suc w))\<rparr>"

definition demo_config :: RepositoryConfig where
  "demo_config =
     \<lparr>BasePath = ''/srv'', GitURL = ''https://example.org/app.git'', CloneDirName = ''app'',
      Branch = ''main'', ServiceName = ''web'', ComposeFile = ''docker-compose.yml'',
      CheckIntervalSeconds = 300\<rparr>"

definition ready_repo :: Repository where
  "ready_repo = \<lparr>Config = demo_config, workingPath = ''/srv/app'', isInitialised = True\<rparr>"

definition start :: "nat sys" where
  "start = \<lparr>world = 0, trace = []\<rparr>"

text \<open>
  Local and remote differ (\<open>abc123\<close> and \<open>def456\<close>); the ancestor check ends as
  given.
\<close>

definition ancestor_env :: "run_outcome \<Rightarrow> nat env" where
  "ancestor_env oc =
     scripted_env
       [(''HEAD'', ok_outcome (''abc123'' @ [CHR 0x0A])),
        (''origin/main'', ok_outcome (''def456'' @ [CHR 0x0A])),
        (''merge-base'', oc)]
       [] 1000 (True, ChanCase)"

text \<open>
  The same, with a runner of another make for the ancestor check: it reports a failed
  command through the exit code alone, with a nil error.
\<close>

definition quiet_failure_env :: "nat env" where
  "quiet_failure_env =
     (ancestor_env (ok_outcome []))
       \<lparr>Execute := (\<lambda>w workingDir command args.
          if ''merge-base'' \<in> set args
          then (\<lparr>Stdout = [], Stderr = ''fatal: bad object'', ExitCode = 128, Err = None\<rparr>, Suc w)
          else Execute (ancestor_env (ok_outcome [])) w workingDir command args)\<rparr>"

text \<open>Every command succeeds but the scale-up, which ends as given.\<close>

definition deploy_env :: "run_outcome \<Rightarrow> nat \<Rightarrow> bool \<times> branch \<Rightarrow> nat env" where
  "deploy_env up cancel_at sel = scripted_env [(''--no-deps'', up)] [] cancel_at sel"

text \<open>Local and remote are the same commit.\<close>

definition sync_env :: "nat \<Rightarrow> nat env" where
  "sync_env cancel_at =
     scripted_env
       [(''HEAD'', ok_outcome (''abc123'' @ [CHR 0x0A])),
        (''origin/main'', ok_outcome (''abc123'' @ [CHR 0x0A]))]
       [] cancel_at (True, ChanCase)"

text \<open>
  Local is behind remote and the ancestor check succeeds; \<open>extra\<close> answers further
  commands.
\<close>

definition update_env :: "(string \<times> run_outcome) list \<Rightarrow> nat \<Rightarrow> nat env" where
  "update_env extra cancel_at =
     scripted_env
       ([(''HEAD'', ok_outcome (''abc123'' @ [CHR 0x0A])),
         (''origin/main'', ok_outcome (''def456'' @ [CHR 0x0A]))] @ extra)
       [] cancel_at (True, ChanCase)"

text \<open>
  No working copy yet (\<open>.git\<close> does not exist, the base directory does); the clone ends
  as given.
\<close>

definition clone_env :: "run_outcome \<Rightarrow> nat env" where
  "clone_env oc =
     scripted_env [(''clone'', oc)] [(''/srv/app/.git'', ErrNotExist)] 1000 (True, ChanCase)"

text \<open>
  The context is cancelled while the loop waits for a tick; when the wait ends the ticker
  is ready or not, and the runtime picks as given.
\<close>

definition race_env :: "bool \<Rightarrow> branch \<Rightarrow> nat env" where
  "race_env ready pick = scripted_env [] [] 1 (ready, pick)"

text \<open>
  The same race for a controller without a working copy, whose clone cannot be started.
\<close>

definition race_fresh_env :: "nat env" where
  "race_fresh_env =
     scripted_env [(''clone'', spawn_failure)] [(''/srv/app/.git'', ErrNotExist)] 1 (True, ChanCase)"

text \<open>
  A configuration file of three entries: the first leaves out the manifest file name and the
  poll interval, the second has a negative interval, the third leaves out the file name.
\<close>

definition demo_config_env :: config_env where
  "demo_config_env =
     \<lparr>cfg_Abs = (\<lambda>p. Inr (''/etc/rivet/'' @ p)),
      cfg_ReadFile = (\<lambda>p. Inr ''repositories: ...''),
      cfg_Unmarshal = (\<lambda>data. Inr \<lparr>Repositories =
         [demo_config\<lparr>ComposeFile := [], CheckIntervalSeconds := 0\<rparr>,
          demo_config\<lparr>ComposeFile := ''stack.yml'', CheckIntervalSeconds := - 5\<rparr>,
          demo_config\<lparr>ComposeFile := [], CheckIntervalSeconds := 60\<rparr>]\<rparr>)\<rparr>"

declare monitor_loop.simps [code]

section \<open>Evaluation and trace lemmas\<close>

lemmas runner_defs = scripted_env_def OSExecute_def os_result_def ok_outcome_def exit_outcome_def
  spawn_failure_def trim_def is_blank_def exec_at_def failed_def

lemmas fixture_defs = ready_repo_def demo_config_def start_def

lemmas step_defs = ensureCloned_def CheckForUpdates_def PullChanges_def BuildContainers_def
  DeployContainers_def getWorkingPath_def composeFilePath_def upArgs_def downArgs_def
  targetScaleUp_def finalScale_def initialScale_def healthCheckDelay_def select_settle_def
  go_select_def Let_def

lemma exec_at_trace:
  "exec_at env st \<sigma> d c a = (res, \<sigma>') \<Longrightarrow> trace \<sigma>' = trace \<sigma> @ [Exec st d c a]"
  by (auto simp: exec_at_def split: prod.splits)

lemma sites_append: "sites (xs @ ys) = sites xs @ sites ys"
  by (induction xs rule: sites.induct) simp_all

lemma extends_refl: "extends lo hi \<sigma> \<sigma>"
  by (simp add: extends_def new_events_def)

lemma extends_world: "extends lo hi \<sigma> (\<sigma>\<lparr>world := w\<rparr>)"
  by (simp add: extends_def new_events_def)

lemma extendsI:
  assumes "trace \<sigma>' = trace \<sigma> @ evs"
    and "sorted_wrt (<) (map site_rank (sites evs))"
    and "list_all (\<lambda>s. lo \<le> site_rank s \<and> site_rank s \<le> hi) (sites evs)"
  shows "extends lo hi \<sigma> \<sigma>'"
  using assms by (simp add: extends_def new_events_def)

lemma extends_new:
  "extends lo hi \<sigma> \<sigma>' \<Longrightarrow> trace \<sigma>' = trace \<sigma> @ new_events \<sigma> \<sigma>'"
  by (simp add: extends_def)

lemma extends_trans:
  assumes a: "extends lo hi \<sigma> \<sigma>1" and b: "extends lo' hi' \<sigma>1 \<sigma>2"
    and lt: "hi < lo'" "lo \<le> hi" "lo' \<le> hi'"
  shows "extends lo hi' \<sigma> \<sigma>2"
proof (rule extendsI)
  show "trace \<sigma>2 = trace \<sigma> @ (new_events \<sigma> \<sigma>1 @ new_events \<sigma>1 \<sigma>2)"
    using extends_new [OF a] extends_new [OF b] by simp
  have la: "list_all (\<lambda>s. lo \<le> site_rank s \<and> site_rank s \<le> hi) (sites (new_events \<sigma> \<sigma>1))"
    and lb: "list_all (\<lambda>s. lo' \<le> site_rank s \<and> site_rank s \<le> hi') (sites (new_events \<sigma>1 \<sigma>2))"
    using a b by (simp_all add: extends_def)
  have sa: "sorted_wrt (<) (map site_rank (sites (new_events \<sigma> \<sigma>1)))"
    and sb: "sorted_wrt (<) (map site_rank (sites (new_events \<sigma>1 \<sigma>2)))"
    using a b by (simp_all add: extends_def)
  show "sorted_wrt (<) (map site_rank (sites (new_events \<sigma> \<sigma>1 @ new_events \<sigma>1 \<sigma>2)))"
    using sa sb la lb lt by (fastforce simp: sites_append sorted_wrt_append list_all_iff)
  show "list_all (\<lambda>s. lo \<le> site_rank s \<and> site_rank s \<le> hi') (sites (new_events \<sigma> \<sigma>1 @ new_events \<sigma>1 \<sigma>2))"
    using la lb lt by (fastforce simp: sites_append list_all_iff)
qed

lemma extends_widen:
  "extends lo hi \<sigma> \<sigma>' \<Longrightarrow> lo' \<le> lo \<Longrightarrow> hi \<le> hi' \<Longrightarrow> extends lo' hi' \<sigma> \<sigma>'"
  by (fastforce simp: extends_def list_all_iff)

lemma exec_at_extends:
  "exec_at env st \<sigma> d c a = (res, \<sigma>') \<Longrightarrow> extends (site_rank st) (site_rank st) \<sigma> \<sigma>'"
  by (rule extendsI [where evs = "[Exec st d c a]"]) (simp_all add: exec_at_trace)

lemma runClone_extends:
  "runClone env r \<sigma> = (res, r', \<sigma>') \<Longrightarrow> extends 0 0 \<sigma> \<sigma>'"
  by (auto simp: runClone_def Let_def split: prod.splits option.splits if_splits
           dest!: exec_at_extends)

lemma extends_world_left:
  "extends lo hi (\<sigma>\<lparr>world := w\<rparr>) \<sigma>' \<Longrightarrow> extends lo hi \<sigma> \<sigma>'"
  by (simp add: extends_def new_events_def)

lemma ensureCloned_extends:
  "ensureCloned env r \<sigma> = (res, r', \<sigma>') \<Longrightarrow> extends 0 0 \<sigma> \<sigma>'"
  by (auto simp: ensureCloned_def Let_def extends_refl extends_world
           split: prod.splits option.splits if_splits sum.splits
           dest!: runClone_extends extends_world_left)

lemma PullChanges_extends:
  "PullChanges env r \<sigma> = (res, r', \<sigma>') \<Longrightarrow> extends 5 5 \<sigma> \<sigma>'"
  by (auto simp: PullChanges_def Let_def extends_refl split: prod.splits if_splits
           dest!: exec_at_extends)

lemma BuildContainers_extends:
  "BuildContainers env r \<sigma> = (res, r', \<sigma>') \<Longrightarrow> extends 6 6 \<sigma> \<sigma>'"
  by (auto simp: BuildContainers_def Let_def extends_refl split: prod.splits if_splits
           dest!: exec_at_extends)

lemma extends_chain:
  "extends 0 hi \<sigma> \<sigma>1 \<Longrightarrow> extends lo' hi' \<sigma>1 \<sigma>2 \<Longrightarrow> hi < lo' \<Longrightarrow> lo' \<le> hi' \<Longrightarrow>
   extends 0 hi' \<sigma> \<sigma>2"
  by (rule extends_trans) simp_all

lemma select_settle_trace:
  "select_settle env n \<sigma> = (b, \<sigma>') \<Longrightarrow> trace \<sigma>' = trace \<sigma> @ [SettleWait]"
  by (auto simp: select_settle_def split: prod.splits)

lemma extends_settle:
  assumes a: "extends lo hi \<sigma> \<sigma>1" and b: "select_settle env n \<sigma>1 = (br, \<sigma>2)"
  shows "extends lo hi \<sigma> \<sigma>2"
proof (rule extendsI [where evs = "new_events \<sigma> \<sigma>1 @ [SettleWait]"])
  show "trace \<sigma>2 = trace \<sigma> @ (new_events \<sigma> \<sigma>1 @ [SettleWait])"
    using extends_new [OF a] select_settle_trace [OF b] by simp
  show "sorted_wrt (<) (map site_rank (sites (new_events \<sigma> \<sigma>1 @ [SettleWait])))"
    using a by (simp add: extends_def sites_append)
  show "list_all (\<lambda>s. lo \<le> site_rank s \<and> site_rank s \<le> hi) (sites (new_events \<sigma> \<sigma>1 @ [SettleWait]))"
    using a by (simp add: extends_def sites_append)
qed

lemma CheckForUpdates_extends:
  assumes "CheckForUpdates env r \<sigma> = (res, r', \<sigma>')"
  shows "extends 1 4 \<sigma> \<sigma>'"
proof (cases "isInitialised r")
  case False
  with assms show ?thesis by (simp add: CheckForUpdates_def extends_refl)
next
  case True
  obtain pr r1 where wp: "getWorkingPath env r (world \<sigma>) = (pr, r1)" by (cases "getWorkingPath env r (world \<sigma>)")
  obtain f \<sigma>1 where f: "exec_at env Fetch \<sigma> (path_or_empty pr) ''git''
      [''fetch'', ''origin'', Branch (Config r1), ''--prune''] = (f, \<sigma>1)" by (cases "exec_at env Fetch \<sigma> (path_or_empty pr) ''git''
      [''fetch'', ''origin'', Branch (Config r1), ''--prune'']")
  obtain l \<sigma>2 where l: "exec_at env RevParseLocal \<sigma>1 (path_or_empty pr) ''git'' [''rev-parse'', ''HEAD''] = (l, \<sigma>2)"
    by (cases "exec_at env RevParseLocal \<sigma>1 (path_or_empty pr) ''git'' [''rev-parse'', ''HEAD'']")
  obtain m \<sigma>3 where m: "exec_at env RevParseRemote \<sigma>2 (path_or_empty pr) ''git''
      [''rev-parse'', ''origin/'' @ Branch (Config r1)] = (m, \<sigma>3)"
    by (cases "exec_at env RevParseRemote \<sigma>2 (path_or_empty pr) ''git''
      [''rev-parse'', ''origin/'' @ Branch (Config r1)]")
  obtain a \<sigma>4 where a: "exec_at env MergeBase \<sigma>3 (path_or_empty pr) ''git''
      [''merge-base'', ''--is-ancestor'', strings_TrimSpace env (Stdout l), strings_TrimSpace env (Stdout m)] = (a, \<sigma>4)"
    by (cases "exec_at env MergeBase \<sigma>3 (path_or_empty pr) ''git''
      [''merge-base'', ''--is-ancestor'', strings_TrimSpace env (Stdout l), strings_TrimSpace env (Stdout m)]")
  have e1: "extends 1 1 \<sigma> \<sigma>1" using exec_at_extends [OF f] by simp
  have e2: "extends 1 2 \<sigma> \<sigma>2"
    using extends_trans [OF e1 exec_at_extends [OF l]] by simp
  have e3: "extends 1 3 \<sigma> \<sigma>3"
    using extends_trans [OF e2 exec_at_extends [OF m]] by simp
  have e4: "extends 1 4 \<sigma> \<sigma>4"
    using extends_trans [OF e3 exec_at_extends [OF a]] by simp
  have "\<sigma>' = \<sigma>1 \<or> \<sigma>' = \<sigma>2 \<or> \<sigma>' = \<sigma>3 \<or> \<sigma>' = \<sigma>4"
    using assms True wp f l m a by (auto simp: CheckForUpdates_def Let_def split: if_splits)
  then show ?thesis
    using e1 e2 e3 e4 by (auto intro: extends_widen)
qed

lemma DeployContainers_extends:
  assumes "DeployContainers env r \<sigma> = (res, r', \<sigma>')"
  shows "extends 7 8 \<sigma> \<sigma>'"
proof (cases "isInitialised r")
  case False
  with assms show ?thesis by (simp add: DeployContainers_def extends_refl)
next
  case True
  obtain pr r1 where wp: "getWorkingPath env r (world \<sigma>) = (pr, r1)" by (cases "getWorkingPath env r (world \<sigma>)")
  let ?wd = "path_or_empty pr"
  let ?mf = "composeFilePath env r1 ?wd"
  obtain up \<sigma>1 where up: "exec_at env ScaleUp \<sigma> ?wd ''docker'' (upArgs ?mf (ServiceName (Config r1))) = (up, \<sigma>1)"
    by (cases "exec_at env ScaleUp \<sigma> ?wd ''docker'' (upArgs ?mf (ServiceName (Config r1)))")
  obtain b \<sigma>2 where b: "select_settle env healthCheckDelay \<sigma>1 = (b, \<sigma>2)"
    by (cases "select_settle env healthCheckDelay \<sigma>1")
  obtain dn \<sigma>3 where dn: "exec_at env ScaleDown \<sigma>2 ?wd ''docker'' (downArgs ?mf (ServiceName (Config r1))) = (dn, \<sigma>3)"
    by (cases "exec_at env ScaleDown \<sigma>2 ?wd ''docker'' (downArgs ?mf (ServiceName (Config r1)))")
  have e1: "extends 7 7 \<sigma> \<sigma>1" using exec_at_extends [OF up] by simp
  have e2: "extends 7 7 \<sigma> \<sigma>2" by (rule extends_settle [OF e1 b])
  have e3: "extends 7 8 \<sigma> \<sigma>3"
    using extends_trans [OF e2 exec_at_extends [OF dn]] by simp
  have "\<sigma>' = \<sigma>1 \<or> \<sigma>' = \<sigma>2 \<or> \<sigma>' = \<sigma>3"
    using assms True wp up b dn
    by (auto simp: DeployContainers_def Let_def split: if_splits branch.splits)
  then show ?thesis
    using e1 e2 e3 by (auto intro: extends_widen)
qed

lemma Process_extends:
  assumes "Process env r \<sigma> = (res, r', \<sigma>')"
  shows "extends 0 8 \<sigma> \<sigma>'"
proof -
  obtain a1 r1 \<sigma>1 where s1: "ensureCloned env r \<sigma> = (a1, r1, \<sigma>1)" by (metis prod_cases3)
  obtain a2 r2 \<sigma>2 where s2: "CheckForUpdates env r1 \<sigma>1 = (a2, r2, \<sigma>2)" by (metis prod_cases3)
  obtain a3 r3 \<sigma>3 where s3: "PullChanges env r2 \<sigma>2 = (a3, r3, \<sigma>3)" by (metis prod_cases3)
  obtain a4 r4 \<sigma>4 where s4: "BuildContainers env r3 \<sigma>3 = (a4, r4, \<sigma>4)" by (metis prod_cases3)
  obtain a5 r5 \<sigma>5 where s5: "DeployContainers env r4 \<sigma>4 = (a5, r5, \<sigma>5)" by (metis prod_cases3)
  have e1: "extends 0 0 \<sigma> \<sigma>1" by (rule ensureCloned_extends [OF s1])
  have e2: "extends 0 4 \<sigma> \<sigma>2"
    by (rule extends_chain [OF e1 CheckForUpdates_extends [OF s2]]) simp_all
  have e3: "extends 0 5 \<sigma> \<sigma>3"
    by (rule extends_chain [OF e2 PullChanges_extends [OF s3]]) simp_all
  have e4: "extends 0 6 \<sigma> \<sigma>4"
    by (rule extends_chain [OF e3 BuildContainers_extends [OF s4]]) simp_all
  have e5: "extends 0 8 \<sigma> \<sigma>5"
    by (rule extends_chain [OF e4 DeployContainers_extends [OF s5]]) simp_all
  have "\<sigma>' = \<sigma>1 \<or> \<sigma>' = \<sigma>2 \<or> \<sigma>' = \<sigma>3 \<or> \<sigma>' = \<sigma>4 \<or> \<sigma>' = \<sigma>5"
    using assms s1 s2 s3 s4 s5
    by (simp add: Process_def split: sum.splits option.splits if_splits) 
  then show ?thesis
    using e1 e2 e3 e4 e5 by (auto intro: extends_widen)
qed

section \<open>detect-updates\<close>

text \<open>
  C1. For an initialised controller whose fetch and two rev-parse commands succeed: when the
  trimmed local and remote commit identifiers are equal, \<open>CheckForUpdates\<close> returns false
  after exactly those three commands (no ancestor check); when they differ, it returns
  true exactly when the ancestor check reports exit code 0, and returns false, not an error,
  when it reports exit code 1.
\<close>

theorem CheckForUpdates_verdict:
  assumes init: "isInitialised r"
    and wp: "getWorkingPath env r (world \<sigma>) = (pr, r1)"
    and fe: "exec_at env Fetch \<sigma> (path_or_empty pr) ''git''
               [''fetch'', ''origin'', Branch (Config r1), ''--prune''] = (f, \<sigma>1)"
    and fe_ok: "\<not> failed f"
    and lo: "exec_at env RevParseLocal \<sigma>1 (path_or_empty pr) ''git'' [''rev-parse'', ''HEAD''] = (l, \<sigma>2)"
    and lo_ok: "\<not> failed l"
    and re: "exec_at env RevParseRemote \<sigma>2 (path_or_empty pr) ''git''
               [''rev-parse'', ''origin/'' @ Branch (Config r1)] = (m, \<sigma>3)"
    and re_ok: "\<not> failed m"
    and an: "exec_at env MergeBase \<sigma>3 (path_or_empty pr) ''git''
               [''merge-base'', ''--is-ancestor'', strings_TrimSpace env (Stdout l),
                strings_TrimSpace env (Stdout m)] = (a, \<sigma>4)"
  shows "(strings_TrimSpace env (Stdout l) = strings_TrimSpace env (Stdout m) \<longrightarrow>
            CheckForUpdates env r \<sigma> = (Inr False, r1, \<sigma>3) \<and>
            sites (new_events \<sigma> \<sigma>3) = [Fetch, RevParseLocal, RevParseRemote]) \<and>
         (strings_TrimSpace env (Stdout l) \<noteq> strings_TrimSpace env (Stdout m) \<longrightarrow>
            (fst (CheckForUpdates env r \<sigma>) = Inr True \<longleftrightarrow> ExitCode a = 0) \<and>
            (ExitCode a = 1 \<longrightarrow> CheckForUpdates env r \<sigma> = (Inr False, r1, \<sigma>4)))"
proof -
  have tr: "trace \<sigma>3 = trace \<sigma> @ [Exec Fetch (path_or_empty pr) ''git''
               [''fetch'', ''origin'', Branch (Config r1), ''--prune''],
              Exec RevParseLocal (path_or_empty pr) ''git'' [''rev-parse'', ''HEAD''],
              Exec RevParseRemote (path_or_empty pr) ''git'' [''rev-parse'', ''origin/'' @ Branch (Config r1)]]"
    using exec_at_trace [OF fe] exec_at_trace [OF lo] exec_at_trace [OF re] by simp
  have eq: "strings_TrimSpace env (Stdout l) = strings_TrimSpace env (Stdout m) \<Longrightarrow>
        CheckForUpdates env r \<sigma> = (Inr False, r1, \<sigma>3)"
    using init wp fe fe_ok lo lo_ok re re_ok by (simp add: CheckForUpdates_def)
  have ne: "strings_TrimSpace env (Stdout l) \<noteq> strings_TrimSpace env (Stdout m) \<Longrightarrow>
        CheckForUpdates env r \<sigma> =
          (if Err a \<noteq> None \<and> ExitCode a \<noteq> 0 \<and> ExitCode a \<noteq> 1
           then (Inl (ErrMergeBase (ExitCode a) (Err a) (Stderr a)), r1, \<sigma>4)
           else if ExitCode a = 0 then (Inr True, r1, \<sigma>4) else (Inr False, r1, \<sigma>4))"
    using init wp fe fe_ok lo lo_ok re re_ok an by (simp add: CheckForUpdates_def)
  show ?thesis
    using eq ne tr by (auto simp: new_events_def)
qed

theorem CheckForUpdates_verdict_witness:
  "fst (CheckForUpdates (ancestor_env (exit_outcome 1 [])) ready_repo start) = Inr False \<and>
   sites (trace (snd (snd (CheckForUpdates (ancestor_env (exit_outcome 1 [])) ready_repo start)))) =
     [Fetch, RevParseLocal, RevParseRemote, MergeBase] \<and>
   fst (CheckForUpdates (update_env [] 1000) ready_repo start) = Inr True \<and>
   fst (CheckForUpdates (sync_env 1000) ready_repo start) = Inr False \<and>
   sites (trace (snd (snd (CheckForUpdates (sync_env 1000) ready_repo start)))) =
     [Fetch, RevParseLocal, RevParseRemote]"
proof -
  let ?wd = "''/srv/app''"
  let ?f = "\<lambda>E. exec_at E Fetch start ?wd ''git'' [''fetch'', ''origin'', ''main'', ''--prune'']"
  let ?l = "\<lambda>E. exec_at E RevParseLocal (snd (?f E)) ?wd ''git'' [''rev-parse'', ''HEAD'']"
  let ?m = "\<lambda>E. exec_at E RevParseRemote (snd (?l E)) ?wd ''git'' [''rev-parse'', ''origin/main'']"
  let ?a = "\<lambda>E. exec_at E MergeBase (snd (?m E)) ?wd ''git''
              [''merge-base'', ''--is-ancestor'', strings_TrimSpace E (Stdout (fst (?l E))),
               strings_TrimSpace E (Stdout (fst (?m E)))]"
  note inst = CheckForUpdates_verdict [of ready_repo _ start "Inr ?wd" ready_repo]
  let ?D = "ancestor_env (exit_outcome 1 [])"
  have d: "CheckForUpdates ?D ready_repo start = (Inr False, ready_repo, snd (?a ?D))"
    using inst [of ?D "fst (?f ?D)" "snd (?f ?D)" "fst (?l ?D)" "snd (?l ?D)"
        "fst (?m ?D)" "snd (?m ?D)" "fst (?a ?D)" "snd (?a ?D)"]
    by (simp add: ancestor_env_def getWorkingPath_def runner_defs fixture_defs)
  let ?U = "update_env [] 1000"
  have u: "fst (CheckForUpdates ?U ready_repo start) = Inr True"
    using inst [of ?U "fst (?f ?U)" "snd (?f ?U)" "fst (?l ?U)" "snd (?l ?U)"
        "fst (?m ?U)" "snd (?m ?U)" "fst (?a ?U)" "snd (?a ?U)"]
    by (simp add: update_env_def getWorkingPath_def runner_defs fixture_defs)
  let ?S = "sync_env 1000"
  have s: "CheckForUpdates ?S ready_repo start = (Inr False, ready_repo, snd (?m ?S))"
    using inst [of ?S "fst (?f ?S)" "snd (?f ?S)" "fst (?l ?S)" "snd (?l ?S)"
        "fst (?m ?S)" "snd (?m ?S)" "fst (?a ?S)" "snd (?a ?S)"]
    by (simp add: sync_env_def getWorkingPath_def runner_defs fixture_defs)
  show ?thesis
    unfolding d s
    using u by (simp add: ancestor_env_def sync_env_def runner_defs fixture_defs)
qed

text \<open>
  What \<open>CheckForUpdates\<close> makes of the ancestor check, whatever the runner: an error when
  the runner returns an error together with an exit code other than 0 and 1, true for exit
  code 0, false otherwise.
\<close>

lemma CheckForUpdates_ancestor_result:
  assumes init: "isInitialised r"
    and wp: "getWorkingPath env r (world \<sigma>) = (pr, r1)"
    and fe: "exec_at env Fetch \<sigma> (path_or_empty pr) ''git''
               [''fetch'', ''origin'', Branch (Config r1), ''--prune''] = (f, \<sigma>1)"
    and fe_ok: "\<not> failed f"
    and lo: "exec_at env RevParseLocal \<sigma>1 (path_or_empty pr) ''git'' [''rev-parse'', ''HEAD''] = (l, \<sigma>2)"
    and lo_ok: "\<not> failed l"
    and re: "exec_at env RevParseRemote \<sigma>2 (path_or_empty pr) ''git''
               [''rev-parse'', ''origin/'' @ Branch (Config r1)] = (m, \<sigma>3)"
    and re_ok: "\<not> failed m"
    and differ: "strings_TrimSpace env (Stdout l) \<noteq> strings_TrimSpace env (Stdout m)"
    and an: "exec_at env MergeBase \<sigma>3 (path_or_empty pr) ''git''
               [''merge-base'', ''--is-ancestor'', strings_TrimSpace env (Stdout l),
                strings_TrimSpace env (Stdout m)] = (a, \<sigma>4)"
  shows "CheckForUpdates env r \<sigma> =
           (if Err a \<noteq> None \<and> ExitCode a \<noteq> 0 \<and> ExitCode a \<noteq> 1
            then (Inl (ErrMergeBase (ExitCode a) (Err a) (Stderr a)), r1, \<sigma>4)
            else if ExitCode a = 0 then (Inr True, r1, \<sigma>4)
            else (Inr False, r1, \<sigma>4))"
  using assms by (simp add: CheckForUpdates_def)

text \<open>
  C2. For an initialised controller whose fetch and rev-parse commands succeed with
  different commits, and whose ancestor check is run by \<open>OSCommandExecutor\<close>: when the
  command exits with a status other than 0 and 1 (\<open>cmd.Run\<close> returns an
  \<open>*exec.ExitError\<close>; a status that cannot be read counts as -1), or cannot be started
  (\<open>cmd.Run\<close> returns any other error), \<open>CheckForUpdates\<close> returns the merge-base
  error built from the exit code, the error and the stderr of the runner. It does not
  return false.
\<close>

theorem CheckForUpdates_ancestor_error:
  assumes init: "isInitialised r"
    and wp: "getWorkingPath env r (world \<sigma>) = (pr, r1)"
    and fe: "exec_at env Fetch \<sigma> (path_or_empty pr) ''git''
               [''fetch'', ''origin'', Branch (Config r1), ''--prune''] = (f, \<sigma>1)"
    and fe_ok: "\<not> failed f"
    and lo: "exec_at env RevParseLocal \<sigma>1 (path_or_empty pr) ''git'' [''rev-parse'', ''HEAD''] = (l, \<sigma>2)"
    and lo_ok: "\<not> failed l"
    and re: "exec_at env RevParseRemote \<sigma>2 (path_or_empty pr) ''git''
               [''rev-parse'', ''origin/'' @ Branch (Config r1)] = (m, \<sigma>3)"
    and re_ok: "\<not> failed m"
    and differ: "strings_TrimSpace env (Stdout l) \<noteq> strings_TrimSpace env (Stdout m)"
    and an: "exec_at env MergeBase \<sigma>3 (path_or_empty pr) ''git''
               [''merge-base'', ''--is-ancestor'', strings_TrimSpace env (Stdout l),
                strings_TrimSpace env (Stdout m)] = (a, \<sigma>4)"
    and runner: "a = os_result ''git''
               [''merge-base'', ''--is-ancestor'', strings_TrimSpace env (Stdout l),
                strings_TrimSpace env (Stdout m)] oc"
    and ended: "(run_err oc = Some (ExitError (Some c)) \<and> c \<noteq> 0 \<and> c \<noteq> 1) \<or>
                run_err oc = Some (ExitError None) \<or>
                run_err oc = Some (OtherRunError msg)"
  shows "CheckForUpdates env r \<sigma> = (Inl (ErrMergeBase (ExitCode a) (Err a) (Stderr a)), r1, \<sigma>4) \<and>
         Err a \<noteq> None \<and> ExitCode a \<noteq> 0 \<and> ExitCode a \<noteq> 1"
proof -
  have rep: "Err a \<noteq> None \<and> ExitCode a \<noteq> 0 \<and> ExitCode a \<noteq> 1"
    using ended unfolding runner by (auto simp: os_result_def Let_def)
  then show ?thesis
    using CheckForUpdates_ancestor_result [OF init wp fe fe_ok lo lo_ok re re_ok differ an] by simp
qed

theorem CheckForUpdates_ancestor_error_witness:
  "fst (CheckForUpdates (ancestor_env spawn_failure) ready_repo start) =
     Inl (ErrMergeBase (- 1)
            (Some (FailedToRun ''git'' [''merge-base'', ''--is-ancestor'', ''abc123'', ''def456'']
                     (OtherRunError ''executable file not found'') [])) []) \<and>
   fst (CheckForUpdates (ancestor_env (exit_outcome 128 ''fatal'')) ready_repo start) =
     Inl (ErrMergeBase 128
            (Some (CommandFailed ''git'' [''merge-base'', ''--is-ancestor'', ''abc123'', ''def456'']
                     128 (ExitError (Some 128)) ''fatal'')) ''fatal'')"
proof -
  let ?args = "[''merge-base'', ''--is-ancestor'', ''abc123'', ''def456'']"
  have run: "fst (CheckForUpdates (ancestor_env oc) ready_repo start) =
      Inl (ErrMergeBase (ExitCode (os_result ''git'' ?args oc)) (Err (os_result ''git'' ?args oc))
             (Stderr (os_result ''git'' ?args oc)))"
    if ended: "(run_err oc = Some (ExitError (Some c)) \<and> c \<noteq> 0 \<and> c \<noteq> 1) \<or>
                run_err oc = Some (ExitError None) \<or>
                run_err oc = Some (OtherRunError msg)"
    for oc c msg
  proof -
    let ?env = "ancestor_env oc"
    let ?wd = "''/srv/app''"
    let ?f = "exec_at ?env Fetch start ?wd ''git'' [''fetch'', ''origin'', ''main'', ''--prune'']"
    let ?l = "exec_at ?env RevParseLocal (snd ?f) ?wd ''git'' [''rev-parse'', ''HEAD'']"
    let ?m = "exec_at ?env RevParseRemote (snd ?l) ?wd ''git'' [''rev-parse'', ''origin/main'']"
    let ?a = "exec_at ?env MergeBase (snd ?m) ?wd ''git'' ?args"
    have wp: "getWorkingPath ?env ready_repo (world start) = (Inr ?wd, ready_repo)"
      by (simp add: getWorkingPath_def fixture_defs)
    have okf: "\<not> failed (fst ?f)" and okl: "\<not> failed (fst ?l)" and okm: "\<not> failed (fst ?m)"
      by (simp_all add: ancestor_env_def runner_defs fixture_defs)
    have tl: "strings_TrimSpace ?env (Stdout (fst ?l)) = ''abc123''"
      and tm: "strings_TrimSpace ?env (Stdout (fst ?m)) = ''def456''"
      by (simp_all add: ancestor_env_def runner_defs fixture_defs)
    have res: "fst ?a = os_result ''git'' ?args oc"
      by (simp add: ancestor_env_def scripted_env_def OSExecute_def exec_at_def)
    have "CheckForUpdates ?env ready_repo start =
            (Inl (ErrMergeBase (ExitCode (fst ?a)) (Err (fst ?a)) (Stderr (fst ?a))), ready_repo, snd ?a)"
      using CheckForUpdates_ancestor_error [of ready_repo ?env start "Inr ?wd" ready_repo
          "fst ?f" "snd ?f" "fst ?l" "snd ?l" "fst ?m" "snd ?m" "fst ?a" "snd ?a" oc c msg]
        wp okf okl okm tl tm res ended
      by (simp add: fixture_defs)
    then show ?thesis
      using res by simp
  qed
  show ?thesis
    using run [of spawn_failure _ "''executable file not found''"]
      run [of "exit_outcome 128 ''fatal''" 128]
    by (simp add: os_result_def spawn_failure_def exit_outcome_def)
qed

text \<open>
  The guard of the ancestor check asks for a non-nil error. \<open>OSCommandExecutor\<close> returns
  one whenever \<open>cmd.Run\<close> does, and \<open>cmd.Run\<close> returns nil only for a command that has
  exited with status 0. A runner of another make that reported a non-zero exit code with a
  nil error would be answered with false.
\<close>

lemma os_result_reports_failure:
  "run_err oc \<noteq> None \<Longrightarrow> Err (os_result command args oc) \<noteq> None"
  by (auto simp: os_result_def Let_def split: option.splits run_error.splits)

lemma CheckForUpdates_exit_without_error:
  "Execute quiet_failure_env 3 ''/srv/app'' ''git''
       [''merge-base'', ''--is-ancestor'', ''abc123'', ''def456''] =
     (\<lparr>Stdout = [], Stderr = ''fatal: bad object'', ExitCode = 128, Err = None\<rparr>, 4) \<and>
   fst (CheckForUpdates quiet_failure_env ready_repo start) = Inr False"
  by (simp add: quiet_failure_env_def ancestor_env_def step_defs runner_defs fixture_defs)

section \<open>deploy\<close>

text \<open>
  C6. For an initialised controller: when the scale-up command fails (a non-nil error or a
  non-zero exit code), \<open>DeployContainers\<close> returns the scale-up error at once; the only
  event of that deploy is the scale-up command, so there is neither a settle wait nor a
  scale-down command.
\<close>

theorem DeployContainers_scale_up_failure:
  assumes init: "isInitialised r"
    and wp: "getWorkingPath env r (world \<sigma>) = (pr, r1)"
    and up: "exec_at env ScaleUp \<sigma> (path_or_empty pr) ''docker''
               (upArgs (composeFilePath env r1 (path_or_empty pr)) (ServiceName (Config r1))) = (up, \<sigma>1)"
    and bad: "failed up"
  shows "DeployContainers env r \<sigma> = (Inl (ErrScaleUp (ExitCode up) (Err up) (Stderr up)), r1, \<sigma>1) \<and>
         new_events \<sigma> \<sigma>1 =
           [Exec ScaleUp (path_or_empty pr) ''docker''
              (upArgs (composeFilePath env r1 (path_or_empty pr)) (ServiceName (Config r1)))]"
  using assms exec_at_trace [OF up] by (simp add: DeployContainers_def new_events_def)

theorem DeployContainers_scale_up_failure_witness:
  "DeployContainers (deploy_env (exit_outcome 1 ''no such service'') 1000 (True, ChanCase)) ready_repo start =
     (Inl (ErrScaleUp 1
         (Some (CommandFailed ''docker''
            [''compose'', ''-f'', ''/srv/app/docker-compose.yml'', ''up'', ''-d'', ''--no-deps'',
             ''--scale'', ''web=2'', ''--no-recreate'', ''web'']
            1 (ExitError (Some 1)) ''no such service''))
         ''no such service''),
      ready_repo,
      \<lparr>world = 1,
       trace = [Exec ScaleUp ''/srv/app'' ''docker''
            [''compose'', ''-f'', ''/srv/app/docker-compose.yml'', ''up'', ''-d'', ''--no-deps'',
             ''--scale'', ''web=2'', ''--no-recreate'', ''web'']]\<rparr>)"
proof -
  let ?env = "deploy_env (exit_outcome 1 ''no such service'') 1000 (True, ChanCase)"
  let ?args = "upArgs (composeFilePath ?env ready_repo ''/srv/app'') (ServiceName (Config ready_repo))"
  let ?up = "exec_at ?env ScaleUp start ''/srv/app'' ''docker'' ?args"
  have wp: "getWorkingPath ?env ready_repo (world start) = (Inr ''/srv/app'', ready_repo)"
    by (simp add: getWorkingPath_def fixture_defs)
  have args: "?args = [''compose'', ''-f'', ''/srv/app/docker-compose.yml'', ''up'', ''-d'', ''--no-deps'',
             ''--scale'', ''web=2'', ''--no-recreate'', ''web'']"
    by (simp add: upArgs_def composeFilePath_def deploy_env_def scripted_env_def fixture_defs
          targetScaleUp_def initialScale_def)
  have bad: "failed (fst ?up)"
    unfolding args by (simp add: deploy_env_def runner_defs fixture_defs)
  have "DeployContainers ?env ready_repo start =
          (Inl (ErrScaleUp (ExitCode (fst ?up)) (Err (fst ?up)) (Stderr (fst ?up))), ready_repo, snd ?up)"
    using DeployContainers_scale_up_failure [of ready_repo ?env start "Inr ''/srv/app''" ready_repo
        "fst ?up" "snd ?up"] wp bad
    by (simp add: fixture_defs)
  then show ?thesis
    unfolding args by (simp add: deploy_env_def runner_defs fixture_defs)
qed

text \<open>
  C7. For an initialised controller whose scale-up succeeds: when the context is cancelled
  in the world where the settle wait ends, and the timer has not fired there (or has fired
  at the same moment and the runtime picks the cancellation), \<open>DeployContainers\<close> returns
  \<open>ctx.Err()\<close>; the events of that deploy are the scale-up command and the wait, and no
  scale-down command.
\<close>

theorem DeployContainers_cancelled_settle_wait:
  assumes init: "isInitialised r"
    and wp: "getWorkingPath env r (world \<sigma>) = (pr, r1)"
    and up: "exec_at env ScaleUp \<sigma> (path_or_empty pr) ''docker''
               (upArgs (composeFilePath env r1 (path_or_empty pr)) (ServiceName (Config r1))) = (up, \<sigma>1)"
    and up_ok: "\<not> failed up"
    and wait: "await_timer env (world \<sigma>1) healthCheckDelay = ((fired, pick), w2)"
    and cancelled: "ctx_Err env w2 = Some ce"
    and first: "\<not> fired \<or> pick = DoneCase"
  shows "DeployContainers env r \<sigma> =
           (Inl (ErrContext ce), r1,
            \<lparr>world = w2,
             trace = trace \<sigma> @
               [Exec ScaleUp (path_or_empty pr) ''docker''
                  (upArgs (composeFilePath env r1 (path_or_empty pr)) (ServiceName (Config r1))),
                SettleWait]\<rparr>)"
  using assms exec_at_trace [OF up]
  by (auto simp: DeployContainers_def select_settle_def go_select_def Let_def)

theorem DeployContainers_cancelled_settle_wait_witness:
  "DeployContainers (deploy_env (ok_outcome []) 2 (False, ChanCase)) ready_repo start =
     (Inl (ErrContext Canceled), ready_repo,
      \<lparr>world = 2,
       trace = [Exec ScaleUp ''/srv/app'' ''docker''
            [''compose'', ''-f'', ''/srv/app/docker-compose.yml'', ''up'', ''-d'', ''--no-deps'',
             ''--scale'', ''web=2'', ''--no-recreate'', ''web''],
          SettleWait]\<rparr>)"
proof -
  let ?env = "deploy_env (ok_outcome []) 2 (False, ChanCase)"
  let ?args = "upArgs (composeFilePath ?env ready_repo ''/srv/app'') (ServiceName (Config ready_repo))"
  let ?up = "exec_at ?env ScaleUp start ''/srv/app'' ''docker'' ?args"
  have wp: "getWorkingPath ?env ready_repo (world start) = (Inr ''/srv/app'', ready_repo)"
    by (simp add: getWorkingPath_def fixture_defs)
  have args: "?args = [''compose'', ''-f'', ''/srv/app/docker-compose.yml'', ''up'', ''-d'', ''--no-deps'',
             ''--scale'', ''web=2'', ''--no-recreate'', ''web'']"
    by (simp add: upArgs_def composeFilePath_def deploy_env_def scripted_env_def fixture_defs
          targetScaleUp_def initialScale_def)
  have ok: "\<not> failed (fst ?up)" and w1: "world (snd ?up) = 1"
    unfolding args by (simp_all add: deploy_env_def runner_defs fixture_defs)
  have wait: "await_timer ?env (world (snd ?up)) healthCheckDelay = ((False, ChanCase), 2)"
    unfolding w1 by (simp add: deploy_env_def scripted_env_def)
  have cancelled: "ctx_Err ?env 2 = Some Canceled"
    by (simp add: deploy_env_def scripted_env_def)
  have "DeployContainers ?env ready_repo start =
          (Inl (ErrContext Canceled), ready_repo,
           \<lparr>world = 2, trace = trace start @ [Exec ScaleUp ''/srv/app'' ''docker'' ?args, SettleWait]\<rparr>)"
    using DeployContainers_cancelled_settle_wait [of ready_repo ?env start "Inr ''/srv/app''" ready_repo
        "fst ?up" "snd ?up" False ChanCase 2 Canceled] wp ok wait cancelled
    by (simp add: fixture_defs)
  then show ?thesis
    unfolding args by (simp add: start_def)
qed

section \<open>process-once\<close>

lemma low_rank_site:
  "site_rank s \<le> 4 \<Longrightarrow> s \<in> {Clone, Fetch, RevParseLocal, RevParseRemote, MergeBase}"
  by (cases s) simp_all

lemma low_ranks:
  "list_all (\<lambda>s. site_rank s \<le> 4) xs \<Longrightarrow>
   set xs \<subseteq> {Clone, Fetch, RevParseLocal, RevParseRemote, MergeBase}"
  using low_rank_site by (fastforce simp: list_all_iff)

text \<open>
  C3, as the code has it. When \<open>CheckForUpdates\<close> returns false during \<open>Process\<close>,
  the cycle ends there: the commands it has issued are those of ensure-initialized and
  detect-updates only (no pull, build, scale-up or scale-down), and \<open>Process\<close> returns
  success unless the context is cancelled by then, in which case it returns \<open>ctx.Err()\<close>.
\<close>

theorem Process_no_updates:
  assumes init: "ensureCloned env r \<sigma> = (Inr (), r1, \<sigma>1)"
    and live: "ctx_Err env (world \<sigma>1) = None"
    and none: "CheckForUpdates env r1 \<sigma>1 = (Inr False, r2, \<sigma>2)"
  shows "Process env r \<sigma> =
           ((case ctx_Err env (world \<sigma>2) of None \<Rightarrow> Inr () | Some ce \<Rightarrow> Inl (ErrContext ce)), r2, \<sigma>2) \<and>
         trace \<sigma>2 = trace \<sigma> @ new_events \<sigma> \<sigma>2 \<and>
         set (sites (new_events \<sigma> \<sigma>2)) \<subseteq> {Clone, Fetch, RevParseLocal, RevParseRemote, MergeBase}"
proof -
  have "extends 0 4 \<sigma> \<sigma>2"
    by (rule extends_chain [OF ensureCloned_extends [OF init] CheckForUpdates_extends [OF none]]) simp_all
  then have "trace \<sigma>2 = trace \<sigma> @ new_events \<sigma> \<sigma>2"
    and "set (sites (new_events \<sigma> \<sigma>2)) \<subseteq> {Clone, Fetch, RevParseLocal, RevParseRemote, MergeBase}"
    by (simp_all add: extends_def low_ranks)
  moreover have "Process env r \<sigma> =
      ((case ctx_Err env (world \<sigma>2) of None \<Rightarrow> Inr () | Some ce \<Rightarrow> Inl (ErrContext ce)), r2, \<sigma>2)"
    using init live none by (simp add: Process_def split: option.splits)
  ultimately show ?thesis by simp
qed

theorem Process_no_updates_witness:
  "Process (sync_env 1000) ready_repo start =
      (Inr (), ready_repo,
       \<lparr>world = 3,
        trace = [Exec Fetch ''/srv/app'' ''git'' [''fetch'', ''origin'', ''main'', ''--prune''],
                 Exec RevParseLocal ''/srv/app'' ''git'' [''rev-parse'', ''HEAD''],
                 Exec RevParseRemote ''/srv/app'' ''git'' [''rev-parse'', ''origin/main'']]\<rparr>)"
proof -
  let ?s3 = "\<lparr>world = 3::nat,
        trace = [Exec Fetch ''/srv/app'' ''git'' [''fetch'', ''origin'', ''main'', ''--prune''],
                 Exec RevParseLocal ''/srv/app'' ''git'' [''rev-parse'', ''HEAD''],
                 Exec RevParseRemote ''/srv/app'' ''git'' [''rev-parse'', ''origin/main'']]\<rparr>"
  have c: "CheckForUpdates (sync_env 1000) ready_repo start = (Inr False, ready_repo, ?s3)"
    by (simp add: sync_env_def step_defs runner_defs fixture_defs)
  have i: "ensureCloned (sync_env 1000) ready_repo start = (Inr (), ready_repo, start)"
    by (simp add: ensureCloned_def ready_repo_def)
  have l: "ctx_Err (sync_env 1000) (world start) = None"
    by (simp add: sync_env_def scripted_env_def start_def)
  have l3: "ctx_Err (sync_env 1000) (world ?s3) = None"
    by (simp add: sync_env_def scripted_env_def)
  show ?thesis
    using Process_no_updates [OF i l c] l3 by simp
qed

text \<open>
  C3, as stated, fails: with the same commit on both sides and a context cancelled while
  the third command runs, detect-updates returns false and \<open>Process\<close> returns the
  cancellation, not success.
\<close>

theorem Process_no_updates_counterexample:
  "ensureCloned (sync_env 3) ready_repo start = (Inr (), ready_repo, start) \<and>
   ctx_Err (sync_env 3) (world start) = None \<and>
   fst (CheckForUpdates (sync_env 3) ready_repo start) = Inr False \<and>
   fst (Process (sync_env 3) ready_repo start) = Inl (ErrContext Canceled) \<and>
   sites (trace (snd (snd (Process (sync_env 3) ready_repo start)))) =
     [Fetch, RevParseLocal, RevParseRemote]"
proof -
  have c: "CheckForUpdates (sync_env 3) ready_repo start =
      (Inr False, ready_repo,
       \<lparr>world = 3,
        trace = [Exec Fetch ''/srv/app'' ''git'' [''fetch'', ''origin'', ''main'', ''--prune''],
                 Exec RevParseLocal ''/srv/app'' ''git'' [''rev-parse'', ''HEAD''],
                 Exec RevParseRemote ''/srv/app'' ''git'' [''rev-parse'', ''origin/main'']]\<rparr>)"
    by (simp add: sync_env_def step_defs runner_defs fixture_defs)
  have i: "ensureCloned (sync_env 3) ready_repo start = (Inr (), ready_repo, start)"
    by (simp add: ensureCloned_def ready_repo_def)
  have l: "ctx_Err (sync_env 3) (world start) = None"
    by (simp add: sync_env_def scripted_env_def start_def)
  have p: "Process (sync_env 3) ready_repo start =
      (Inl (ErrContext Canceled), ready_repo,
       \<lparr>world = 3,
        trace = [Exec Fetch ''/srv/app'' ''git'' [''fetch'', ''origin'', ''main'', ''--prune''],
                 Exec RevParseLocal ''/srv/app'' ''git'' [''rev-parse'', ''HEAD''],
                 Exec RevParseRemote ''/srv/app'' ''git'' [''rev-parse'', ''origin/main'']]\<rparr>)"
    using i l c by (simp add: Process_def sync_env_def scripted_env_def)
  show ?thesis
    using i l c p by simp
qed

lemma new_events_append:
  assumes "extends lo hi \<sigma> \<sigma>1" and "extends lo' hi' \<sigma>1 \<sigma>2"
  shows "new_events \<sigma> \<sigma>2 = new_events \<sigma> \<sigma>1 @ new_events \<sigma>1 \<sigma>2"
proof -
  define ys where "ys = new_events \<sigma> \<sigma>1 @ new_events \<sigma>1 \<sigma>2"
  have "trace \<sigma>2 = trace \<sigma> @ ys"
    using extends_new [OF assms(1)] extends_new [OF assms(2)] by (simp add: ys_def)
  then have "new_events \<sigma> \<sigma>2 = ys"
    by (simp add: new_events_def)
  then show ?thesis by (simp add: ys_def)
qed

lemma DeployContainers_success_events:
  assumes "DeployContainers env r \<sigma> = (Inr (), r', \<sigma>')"
  shows "sites (new_events \<sigma> \<sigma>') = [ScaleUp, ScaleDown]"
proof (cases "isInitialised r")
  case False
  with assms show ?thesis by (simp add: DeployContainers_def)
next
  case True
  obtain pr r1 where wp: "getWorkingPath env r (world \<sigma>) = (pr, r1)" by (cases "getWorkingPath env r (world \<sigma>)")
  let ?wd = "path_or_empty pr"
  let ?mf = "composeFilePath env r1 ?wd"
  obtain up \<sigma>1 where up: "exec_at env ScaleUp \<sigma> ?wd ''docker'' (upArgs ?mf (ServiceName (Config r1))) = (up, \<sigma>1)"
    by (cases "exec_at env ScaleUp \<sigma> ?wd ''docker'' (upArgs ?mf (ServiceName (Config r1)))")
  obtain b \<sigma>2 where b: "select_settle env healthCheckDelay \<sigma>1 = (b, \<sigma>2)"
    by (cases "select_settle env healthCheckDelay \<sigma>1")
  obtain dn \<sigma>3 where dn: "exec_at env ScaleDown \<sigma>2 ?wd ''docker'' (downArgs ?mf (ServiceName (Config r1))) = (dn, \<sigma>3)"
    by (cases "exec_at env ScaleDown \<sigma>2 ?wd ''docker'' (downArgs ?mf (ServiceName (Config r1)))")
  have done_err: "b = DoneCase \<Longrightarrow> ctx_Err env (world \<sigma>2) \<noteq> None"
    using b by (auto simp: select_settle_def go_select_def split: prod.splits if_splits)
  have "\<sigma>' = \<sigma>3"
    using assms True wp up b dn done_err
    by (auto simp: DeployContainers_def Let_def split: if_splits branch.splits option.splits)
  moreover have "trace \<sigma>3 = trace \<sigma> @
      [Exec ScaleUp ?wd ''docker'' (upArgs ?mf (ServiceName (Config r1))), SettleWait,
       Exec ScaleDown ?wd ''docker'' (downArgs ?mf (ServiceName (Config r1)))]"
    using exec_at_trace [OF up] select_settle_trace [OF b] exec_at_trace [OF dn] by simp
  ultimately show ?thesis by (simp add: new_events_def)
qed

lemma clone_sites:
  assumes "extends 0 0 \<sigma> \<sigma>'"
  shows "sites (new_events \<sigma> \<sigma>') = [] \<or> sites (new_events \<sigma> \<sigma>') = [Clone]"
proof -
  let ?xs = "sites (new_events \<sigma> \<sigma>')"
  have s: "sorted_wrt (<) (map site_rank ?xs)" and z: "list_all (\<lambda>s. site_rank s = 0) ?xs"
    using assms by (simp_all add: extends_def)
  show ?thesis
  proof (cases ?xs)
    case Nil
    then show ?thesis by simp
  next
    case (Cons x ys)
    have "ys = []" using s z Cons by (cases ys) simp_all
    moreover have "x = Clone" using z Cons by (cases x) simp_all
    ultimately show ?thesis using Cons by simp
  qed
qed

lemma sites_new_events_append:
  assumes "extends lo hi \<sigma> \<sigma>1" and "extends lo' hi' \<sigma>1 \<sigma>2"
  shows "sites (new_events \<sigma> \<sigma>2) = sites (new_events \<sigma> \<sigma>1) @ sites (new_events \<sigma>1 \<sigma>2)"
  by (simp add: new_events_append [OF assms] sites_append)

lemma CheckForUpdates_found_events:
  assumes "CheckForUpdates env r \<sigma> = (Inr True, r', \<sigma>')"
  shows "sites (new_events \<sigma> \<sigma>') = [Fetch, RevParseLocal, RevParseRemote, MergeBase]"
proof (cases "isInitialised r")
  case False
  with assms show ?thesis by (simp add: CheckForUpdates_def)
next
  case True
  obtain pr r1 where wp: "getWorkingPath env r (world \<sigma>) = (pr, r1)" by (cases "getWorkingPath env r (world \<sigma>)")
  let ?wd = "path_or_empty pr"
  obtain f \<sigma>1 where f: "exec_at env Fetch \<sigma> ?wd ''git''
      [''fetch'', ''origin'', Branch (Config r1), ''--prune''] = (f, \<sigma>1)" by (cases "exec_at env Fetch \<sigma> ?wd ''git''
      [''fetch'', ''origin'', Branch (Config r1), ''--prune'']")
  obtain l \<sigma>2 where l: "exec_at env RevParseLocal \<sigma>1 ?wd ''git'' [''rev-parse'', ''HEAD''] = (l, \<sigma>2)"
    by (cases "exec_at env RevParseLocal \<sigma>1 ?wd ''git'' [''rev-parse'', ''HEAD'']")
  obtain m \<sigma>3 where m: "exec_at env RevParseRemote \<sigma>2 ?wd ''git''
      [''rev-parse'', ''origin/'' @ Branch (Config r1)] = (m, \<sigma>3)"
    by (cases "exec_at env RevParseRemote \<sigma>2 ?wd ''git''
      [''rev-parse'', ''origin/'' @ Branch (Config r1)]")
  obtain a \<sigma>4 where a: "exec_at env MergeBase \<sigma>3 ?wd ''git''
      [''merge-base'', ''--is-ancestor'', strings_TrimSpace env (Stdout l), strings_TrimSpace env (Stdout m)] = (a, \<sigma>4)"
    by (cases "exec_at env MergeBase \<sigma>3 ?wd ''git''
      [''merge-base'', ''--is-ancestor'', strings_TrimSpace env (Stdout l), strings_TrimSpace env (Stdout m)]")
  have "\<sigma>' = \<sigma>4"
    using assms True wp f l m a by (auto simp: CheckForUpdates_def Let_def split: if_splits)
  moreover have "trace \<sigma>4 = trace \<sigma> @
      [Exec Fetch ?wd ''git'' [''fetch'', ''origin'', Branch (Config r1), ''--prune''],
       Exec RevParseLocal ?wd ''git'' [''rev-parse'', ''HEAD''],
       Exec RevParseRemote ?wd ''git'' [''rev-parse'', ''origin/'' @ Branch (Config r1)],
       Exec MergeBase ?wd ''git''
         [''merge-base'', ''--is-ancestor'', strings_TrimSpace env (Stdout l), strings_TrimSpace env (Stdout m)]]"
    using exec_at_trace [OF f] exec_at_trace [OF l] exec_at_trace [OF m] exec_at_trace [OF a] by simp
  ultimately show ?thesis by (simp add: new_events_def)
qed

lemma PullChanges_success_events:
  "PullChanges env r \<sigma> = (Inr (), r', \<sigma>') \<Longrightarrow> sites (new_events \<sigma> \<sigma>') = [Pull]"
  by (auto simp: PullChanges_def Let_def new_events_def split: prod.splits if_splits
           dest!: exec_at_trace)

lemma BuildContainers_success_events:
  "BuildContainers env r \<sigma> = (Inr (), r', \<sigma>') \<Longrightarrow> sites (new_events \<sigma> \<sigma>') = [Build]"
  by (auto simp: BuildContainers_def Let_def new_events_def split: prod.splits if_splits
           dest!: exec_at_trace)

lemma full_cycle_sites:
  assumes s1: "ensureCloned env r \<sigma> = (Inr (), r1, \<sigma>1)"
    and s2: "CheckForUpdates env r1 \<sigma>1 = (Inr True, r2, \<sigma>2)"
    and s3: "PullChanges env r2 \<sigma>2 = (Inr (), r3, \<sigma>3)"
    and s4: "BuildContainers env r3 \<sigma>3 = (Inr (), r4, \<sigma>4)"
    and s5: "DeployContainers env r4 \<sigma>4 = (Inr (), r5, \<sigma>5)"
  shows "sites (new_events \<sigma> \<sigma>5) =
           sites (new_events \<sigma> \<sigma>1) @
           [Fetch, RevParseLocal, RevParseRemote, MergeBase, Pull, Build, ScaleUp, ScaleDown]"
proof -
  note e1 = ensureCloned_extends [OF s1]
  note x2 = CheckForUpdates_extends [OF s2]
  note x3 = PullChanges_extends [OF s3]
  note x4 = BuildContainers_extends [OF s4]
  note x5 = DeployContainers_extends [OF s5]
  have e2: "extends 0 4 \<sigma> \<sigma>2" by (rule extends_chain [OF e1 x2]) simp_all
  have e3: "extends 0 5 \<sigma> \<sigma>3" by (rule extends_chain [OF e2 x3]) simp_all
  have e4: "extends 0 6 \<sigma> \<sigma>4" by (rule extends_chain [OF e3 x4]) simp_all
  show ?thesis
    by (simp add: sites_new_events_append [OF e4 x5] sites_new_events_append [OF e3 x4]
          sites_new_events_append [OF e2 x3] sites_new_events_append [OF e1 x2]
          CheckForUpdates_found_events [OF s2] PullChanges_success_events [OF s3]
          BuildContainers_success_events [OF s4] DeployContainers_success_events [OF s5])
qed

text \<open>
  C4. \<open>Process\<close> runs its steps in the order ensure-initialized, detect-updates, pull,
  build, deploy, each on the state the step before it has left and only after that step
  has succeeded with the context not cancelled. The commands of one cycle come in the
  order clone, fetch, rev-parse, rev-parse, merge-base, pull, build, scale up, scale down,
  each at most once. A cycle in which every step succeeds issues, after at most one clone,
  exactly fetch, rev-parse, rev-parse, merge-base, pull, build, scale up, scale down, and
  returns success with the state the deploy has left. The first step that fails ends the
  cycle: \<open>Process\<close> returns that step's error (wrapped with the step's name) together
  with the state that step has left, so nothing is run after it.
\<close>

theorem Process_order_short_circuit:
  "extends 0 8 \<sigma> (snd (snd (Process env r \<sigma>))) \<and>
   (ensureCloned env r \<sigma> = (Inl e, r1, \<sigma>1) \<longrightarrow>
      Process env r \<sigma> = (Inl (ErrInitialize e), r1, \<sigma>1)) \<and>
   (ensureCloned env r \<sigma> = (Inr (), r1, \<sigma>1) \<longrightarrow>
      (sites (new_events \<sigma> \<sigma>1) = [] \<or> sites (new_events \<sigma> \<sigma>1) = [Clone]) \<and>
      (ctx_Err env (world \<sigma>1) = Some ce \<longrightarrow> Process env r \<sigma> = (Inl (ErrContext ce), r1, \<sigma>1)) \<and>
      (ctx_Err env (world \<sigma>1) = None \<longrightarrow>
      (CheckForUpdates env r1 \<sigma>1 = (Inl e, r2, \<sigma>2) \<longrightarrow>
         Process env r \<sigma> = (Inl (ErrUpdateCheck e), r2, \<sigma>2)) \<and>
      (CheckForUpdates env r1 \<sigma>1 = (Inr found, r2, \<sigma>2) \<longrightarrow>
         (ctx_Err env (world \<sigma>2) = Some ce \<longrightarrow> Process env r \<sigma> = (Inl (ErrContext ce), r2, \<sigma>2)) \<and>
         (ctx_Err env (world \<sigma>2) = None \<longrightarrow>
         (\<not> found \<longrightarrow> Process env r \<sigma> = (Inr (), r2, \<sigma>2)) \<and>
         (found \<longrightarrow>
         sites (new_events \<sigma>1 \<sigma>2) = [Fetch, RevParseLocal, RevParseRemote, MergeBase] \<and>
         (PullChanges env r2 \<sigma>2 = (Inl e, r3, \<sigma>3) \<longrightarrow>
            Process env r \<sigma> = (Inl (ErrPullChanges e), r3, \<sigma>3)) \<and>
         (PullChanges env r2 \<sigma>2 = (Inr (), r3, \<sigma>3) \<longrightarrow>
            sites (new_events \<sigma>2 \<sigma>3) = [Pull] \<and>
            (ctx_Err env (world \<sigma>3) = Some ce \<longrightarrow> Process env r \<sigma> = (Inl (ErrContext ce), r3, \<sigma>3)) \<and>
            (ctx_Err env (world \<sigma>3) = None \<longrightarrow>
            (BuildContainers env r3 \<sigma>3 = (Inl e, r4, \<sigma>4) \<longrightarrow>
               Process env r \<sigma> = (Inl (ErrBuildContainers e), r4, \<sigma>4)) \<and>
            (BuildContainers env r3 \<sigma>3 = (Inr (), r4, \<sigma>4) \<longrightarrow>
               sites (new_events \<sigma>3 \<sigma>4) = [Build] \<and>
               (ctx_Err env (world \<sigma>4) = Some ce \<longrightarrow> Process env r \<sigma> = (Inl (ErrContext ce), r4, \<sigma>4)) \<and>
               (ctx_Err env (world \<sigma>4) = None \<longrightarrow>
               (DeployContainers env r4 \<sigma>4 = (Inl e, r5, \<sigma>5) \<longrightarrow>
                  Process env r \<sigma> = (Inl (ErrDeployContainers e), r5, \<sigma>5)) \<and>
               (DeployContainers env r4 \<sigma>4 = (Inr (), r5, \<sigma>5) \<longrightarrow>
                  sites (new_events \<sigma>4 \<sigma>5) = [ScaleUp, ScaleDown] \<and>
                  sites (new_events \<sigma> \<sigma>5) =
                    sites (new_events \<sigma> \<sigma>1) @
                    [Fetch, RevParseLocal, RevParseRemote, MergeBase, Pull, Build, ScaleUp, ScaleDown] \<and>
                  (ctx_Err env (world \<sigma>5) = Some ce \<longrightarrow>
                     Process env r \<sigma> = (Inl (ErrContext ce), r5, \<sigma>5)) \<and>
                  (ctx_Err env (world \<sigma>5) = None \<longrightarrow>
                     Process env r \<sigma> = (Inr (), r5, \<sigma>5))))))))))))"
proof -
  have order: "extends 0 8 \<sigma> (snd (snd (Process env r \<sigma>)))"
    by (rule Process_extends [of env r \<sigma> "fst (Process env r \<sigma>)" "fst (snd (Process env r \<sigma>))"]) simp
  have init: "sites (new_events \<sigma> \<sigma>1) = [] \<or> sites (new_events \<sigma> \<sigma>1) = [Clone]"
    if "ensureCloned env r \<sigma> = (Inr (), r1, \<sigma>1)"
    by (rule clone_sites [OF ensureCloned_extends [OF that]])
  show ?thesis
    apply (rule conjI [OF order])
    apply (intro conjI impI)
    subgoal by (simp add: Process_def)
    subgoal by (rule init)
    subgoal by (simp add: Process_def)
    subgoal by (simp add: Process_def)
    subgoal by (simp add: Process_def)
    subgoal by (simp add: Process_def)
    subgoal by (simp add: CheckForUpdates_found_events)
    subgoal by (simp add: Process_def)
    subgoal by (simp add: PullChanges_success_events)
    subgoal by (simp add: Process_def)
    subgoal by (simp add: Process_def)
    subgoal by (simp add: BuildContainers_success_events)
    subgoal by (simp add: Process_def)
    subgoal by (simp add: Process_def)
    subgoal by (simp add: DeployContainers_success_events)
    subgoal by (simp add: full_cycle_sites)
    subgoal by (simp add: Process_def)
    subgoal by (simp add: Process_def)
    done
qed


theorem Process_order_short_circuit_witness:
  "fst (Process (update_env [(''--ff-only'', exit_outcome 1 ''diverged'')] 1000) ready_repo start) =
     Inl (ErrPullChanges (ErrPull 1
        (Some (CommandFailed ''git'' [''pull'', ''origin'', ''main'', ''--ff-only''] 1
                 (ExitError (Some 1)) ''diverged''))
        ''diverged'')) \<and>
   sites (trace (snd (snd (Process (update_env [(''--ff-only'', exit_outcome 1 ''diverged'')] 1000)
                              ready_repo start)))) =
     [Fetch, RevParseLocal, RevParseRemote, MergeBase, Pull] \<and>
   fst (Process (clone_env (exit_outcome 128 ''unreachable'')) (NewRepository demo_config) start) =
     Inl (ErrInitialize (ErrCloneExecution
        (CommandFailed ''git'' [''clone'', ''-b'', ''main'', ''https://example.org/app.git'', ''app'']
           128 (ExitError (Some 128)) ''unreachable''))) \<and>
   sites (trace (snd (snd (Process (clone_env (exit_outcome 128 ''unreachable''))
                              (NewRepository demo_config) start)))) =
     [Clone] \<and>
   fst (Process (update_env [(''--no-deps'', exit_outcome 1 ''no such service'')] 1000) ready_repo start) =
     Inl (ErrDeployContainers (ErrScaleUp 1
        (Some (CommandFailed ''docker''
            [''compose'', ''-f'', ''/srv/app/docker-compose.yml'', ''up'', ''-d'', ''--no-deps'',
             ''--scale'', ''web=2'', ''--no-recreate'', ''web'']
            1 (ExitError (Some 1)) ''no such service''))
        ''no such service'')) \<and>
   sites (trace (snd (snd (Process (update_env [(''--no-deps'', exit_outcome 1 ''no such service'')] 1000)
                              ready_repo start)))) =
     [Fetch, RevParseLocal, RevParseRemote, MergeBase, Pull, Build, ScaleUp] \<and>
   fst (Process (update_env [] 1000) ready_repo start) = Inr () \<and>
   sites (trace (snd (snd (Process (update_env [] 1000) ready_repo start)))) =
     [Fetch, RevParseLocal, RevParseRemote, MergeBase, Pull, Build, ScaleUp, ScaleDown]"
proof -
  let ?t4 = "[Exec Fetch ''/srv/app'' ''git'' [''fetch'', ''origin'', ''main'', ''--prune''],
              Exec RevParseLocal ''/srv/app'' ''git'' [''rev-parse'', ''HEAD''],
              Exec RevParseRemote ''/srv/app'' ''git'' [''rev-parse'', ''origin/main''],
              Exec MergeBase ''/srv/app'' ''git'' [''merge-base'', ''--is-ancestor'', ''abc123'', ''def456'']]"
  let ?t5 = "?t4 @ [Exec Pull ''/srv/app'' ''git'' [''pull'', ''origin'', ''main'', ''--ff-only'']]"
  let ?t6 = "?t5 @ [Exec Build ''/srv/app'' ''docker''
                      [''compose'', ''-f'', ''/srv/app/docker-compose.yml'', ''build'', ''--pull'', ''web'']]"
  let ?up = "[''compose'', ''-f'', ''/srv/app/docker-compose.yml'', ''up'', ''-d'', ''--no-deps'',
              ''--scale'', ''web=2'', ''--no-recreate'', ''web'']"
  let ?s4 = "\<lparr>world = 4::nat, trace = ?t4\<rparr>"
  let ?s5 = "\<lparr>world = 5::nat, trace = ?t5\<rparr>"
  let ?s6 = "\<lparr>world = 6::nat, trace = ?t6\<rparr>"
  let ?s7 = "\<lparr>world = 7::nat, trace = ?t6 @ [Exec ScaleUp ''/srv/app'' ''docker'' ?up]\<rparr>"

  let ?E = "update_env [(''--ff-only'', exit_outcome 1 ''diverged'')] 1000"
  let ?e = "ErrPull 1 (Some (CommandFailed ''git'' [''pull'', ''origin'', ''main'', ''--ff-only''] 1
                 (ExitError (Some 1)) ''diverged'')) ''diverged''"
  have i: "ensureCloned ?E ready_repo start = (Inr (), ready_repo, start)"
    by (simp add: ensureCloned_def ready_repo_def)
  have l: "ctx_Err ?E (world start) = None" "ctx_Err ?E (world ?s4) = None"
    by (simp_all add: update_env_def scripted_env_def start_def)
  have c: "CheckForUpdates ?E ready_repo start = (Inr True, ready_repo, ?s4)"
    by (simp add: update_env_def step_defs runner_defs fixture_defs)
  have p: "PullChanges ?E ready_repo ?s4 = (Inl ?e, ready_repo, ?s5)"
    by (simp add: update_env_def step_defs runner_defs fixture_defs)
  have pull: "Process ?E ready_repo start = (Inl (ErrPullChanges ?e), ready_repo, ?s5)"
    using Process_order_short_circuit [where env = ?E and r = ready_repo and \<sigma> = start
        and ?r1.0 = ready_repo and ?\<sigma>1.0 = start and found = True
        and ?r2.0 = ready_repo and ?\<sigma>2.0 = ?s4
        and e = ?e and ?r3.0 = ready_repo and ?\<sigma>3.0 = ?s5] i l c p
    by simp

  let ?F = "clone_env (exit_outcome 128 ''unreachable'')"
  let ?ce = "ErrCloneExecution
        (CommandFailed ''git'' [''clone'', ''-b'', ''main'', ''https://example.org/app.git'', ''app'']
           128 (ExitError (Some 128)) ''unreachable'')"
  let ?r0 = "\<lparr>Config = demo_config, workingPath = ''/srv/app'', isInitialised = False\<rparr>"
  let ?c1 = "\<lparr>world = 3::nat,
       trace = [Exec Clone ''/srv'' ''git''
                  [''clone'', ''-b'', ''main'', ''https://example.org/app.git'', ''app'']]\<rparr>"
  have fi: "ensureCloned ?F (NewRepository demo_config) start = (Inl ?ce, ?r0, ?c1)"
    by (simp add: clone_env_def NewRepository_def runClone_def step_defs runner_defs fixture_defs)
  have init: "Process ?F (NewRepository demo_config) start = (Inl (ErrInitialize ?ce), ?r0, ?c1)"
    using Process_order_short_circuit [where env = ?F and r = "NewRepository demo_config"
        and \<sigma> = start and e = ?ce and ?r1.0 = ?r0 and ?\<sigma>1.0 = ?c1] fi
    by simp

  let ?G = "update_env [(''--no-deps'', exit_outcome 1 ''no such service'')] 1000"
  let ?de = "ErrScaleUp 1 (Some (CommandFailed ''docker'' ?up 1 (ExitError (Some 1)) ''no such service''))
               ''no such service''"
  have gi: "ensureCloned ?G ready_repo start = (Inr (), ready_repo, start)"
    by (simp add: ensureCloned_def ready_repo_def)
  have gl: "ctx_Err ?G (world start) = None" "ctx_Err ?G (world ?s4) = None"
    "ctx_Err ?G (world ?s5) = None" "ctx_Err ?G (world ?s6) = None"
    by (simp_all add: update_env_def scripted_env_def start_def)
  have gc: "CheckForUpdates ?G ready_repo start = (Inr True, ready_repo, ?s4)"
    by (simp add: update_env_def step_defs runner_defs fixture_defs)
  have gp: "PullChanges ?G ready_repo ?s4 = (Inr (), ready_repo, ?s5)"
    by (simp add: update_env_def step_defs runner_defs fixture_defs)
  have gb: "BuildContainers ?G ready_repo ?s5 = (Inr (), ready_repo, ?s6)"
    by (simp add: update_env_def step_defs runner_defs fixture_defs)
  have gd: "DeployContainers ?G ready_repo ?s6 = (Inl ?de, ready_repo, ?s7)"
    by (simp add: update_env_def step_defs runner_defs fixture_defs)
  have deploy: "Process ?G ready_repo start = (Inl (ErrDeployContainers ?de), ready_repo, ?s7)"
    using Process_order_short_circuit [where env = ?G and r = ready_repo and \<sigma> = start
        and ?r1.0 = ready_repo and ?\<sigma>1.0 = start and found = True
        and ?r2.0 = ready_repo and ?\<sigma>2.0 = ?s4
        and ?r3.0 = ready_repo and ?\<sigma>3.0 = ?s5 and ?r4.0 = ready_repo and ?\<sigma>4.0 = ?s6
        and e = ?de and ?r5.0 = ready_repo and ?\<sigma>5.0 = ?s7] gi gl gc gp gb gd
    by simp

  let ?K = "update_env [] 1000"
  let ?s9 = "\<lparr>world = 9::nat,
              trace = ?t6 @ [Exec ScaleUp ''/srv/app'' ''docker'' ?up, SettleWait,
                             Exec ScaleDown ''/srv/app'' ''docker''
                               [''compose'', ''-f'', ''/srv/app/docker-compose.yml'', ''up'', ''-d'',
                                ''--scale'', ''web=1'', ''--no-recreate'', ''web'']]\<rparr>"
  have ki: "ensureCloned ?K ready_repo start = (Inr (), ready_repo, start)"
    by (simp add: ensureCloned_def ready_repo_def)
  have kl: "ctx_Err ?K (world start) = None" "ctx_Err ?K (world ?s4) = None"
    "ctx_Err ?K (world ?s5) = None" "ctx_Err ?K (world ?s6) = None" "ctx_Err ?K (world ?s9) = None"
    by (simp_all add: update_env_def scripted_env_def start_def)
  have kc: "CheckForUpdates ?K ready_repo start = (Inr True, ready_repo, ?s4)"
    by (simp add: update_env_def step_defs runner_defs fixture_defs)
  have kp: "PullChanges ?K ready_repo ?s4 = (Inr (), ready_repo, ?s5)"
    by (simp add: update_env_def step_defs runner_defs fixture_defs)
  have kb: "BuildContainers ?K ready_repo ?s5 = (Inr (), ready_repo, ?s6)"
    by (simp add: update_env_def step_defs runner_defs fixture_defs)
  have kd: "DeployContainers ?K ready_repo ?s6 = (Inr (), ready_repo, ?s9)"
    by (simp add: update_env_def step_defs runner_defs fixture_defs)
  have whole: "Process ?K ready_repo start = (Inr (), ready_repo, ?s9)"
    using Process_order_short_circuit [where env = ?K and r = ready_repo and \<sigma> = start
        and ?r1.0 = ready_repo and ?\<sigma>1.0 = start and found = True
        and ?r2.0 = ready_repo and ?\<sigma>2.0 = ?s4
        and ?r3.0 = ready_repo and ?\<sigma>3.0 = ?s5 and ?r4.0 = ready_repo and ?\<sigma>4.0 = ?s6
        and ?r5.0 = ready_repo and ?\<sigma>5.0 = ?s9] ki kl kc kp kb kd
    by simp
  show ?thesis
    by (simp add: pull init deploy whole)
qed

text \<open>
  C10. When the context is found cancelled after a step of \<open>Process\<close> has succeeded,
  \<open>Process\<close> returns \<open>ctx.Err()\<close>, not success; this holds after each of the five
  steps, and after a deploy that has succeeded both scale commands have been issued.
\<close>

theorem Process_cancelled_after_success:
  "ensureCloned env r \<sigma> = (Inr (), r1, \<sigma>1) \<longrightarrow>
     (ctx_Err env (world \<sigma>1) = Some ce \<longrightarrow> Process env r \<sigma> = (Inl (ErrContext ce), r1, \<sigma>1)) \<and>
     (ctx_Err env (world \<sigma>1) = None \<longrightarrow> CheckForUpdates env r1 \<sigma>1 = (Inr found, r2, \<sigma>2) \<longrightarrow>
        (ctx_Err env (world \<sigma>2) = Some ce \<longrightarrow> Process env r \<sigma> = (Inl (ErrContext ce), r2, \<sigma>2)) \<and>
        (ctx_Err env (world \<sigma>2) = None \<longrightarrow> found \<longrightarrow> PullChanges env r2 \<sigma>2 = (Inr (), r3, \<sigma>3) \<longrightarrow>
           (ctx_Err env (world \<sigma>3) = Some ce \<longrightarrow> Process env r \<sigma> = (Inl (ErrContext ce), r3, \<sigma>3)) \<and>
           (ctx_Err env (world \<sigma>3) = None \<longrightarrow> BuildContainers env r3 \<sigma>3 = (Inr (), r4, \<sigma>4) \<longrightarrow>
              (ctx_Err env (world \<sigma>4) = Some ce \<longrightarrow> Process env r \<sigma> = (Inl (ErrContext ce), r4, \<sigma>4)) \<and>
              (ctx_Err env (world \<sigma>4) = None \<longrightarrow> DeployContainers env r4 \<sigma>4 = (Inr (), r5, \<sigma>5) \<longrightarrow>
                 ctx_Err env (world \<sigma>5) = Some ce \<longrightarrow>
                   Process env r \<sigma> = (Inl (ErrContext ce), r5, \<sigma>5) \<and>
                   sites (new_events \<sigma>4 \<sigma>5) = [ScaleUp, ScaleDown]))))"
  by (simp add: Process_def DeployContainers_success_events)

theorem Process_cancelled_after_success_witness:
  "fst (Process (update_env [] 9) ready_repo start) = Inl (ErrContext Canceled) \<and>
   sites (trace (snd (snd (Process (update_env [] 9) ready_repo start)))) =
     [Fetch, RevParseLocal, RevParseRemote, MergeBase, Pull, Build, ScaleUp, ScaleDown] \<and>
   fst (Process (update_env [] 5) ready_repo start) = Inl (ErrContext Canceled) \<and>
   sites (trace (snd (snd (Process (update_env [] 5) ready_repo start)))) =
     [Fetch, RevParseLocal, RevParseRemote, MergeBase, Pull]"
proof -
  let ?E = "update_env [] 9"
  let ?t4 = "[Exec Fetch ''/srv/app'' ''git'' [''fetch'', ''origin'', ''main'', ''--prune''],
              Exec RevParseLocal ''/srv/app'' ''git'' [''rev-parse'', ''HEAD''],
              Exec RevParseRemote ''/srv/app'' ''git'' [''rev-parse'', ''origin/main''],
              Exec MergeBase ''/srv/app'' ''git'' [''merge-base'', ''--is-ancestor'', ''abc123'', ''def456'']]"
  let ?t5 = "?t4 @ [Exec Pull ''/srv/app'' ''git'' [''pull'', ''origin'', ''main'', ''--ff-only'']]"
  let ?t6 = "?t5 @ [Exec Build ''/srv/app'' ''docker''
                      [''compose'', ''-f'', ''/srv/app/docker-compose.yml'', ''build'', ''--pull'', ''web'']]"
  let ?t9 = "?t6 @ [Exec ScaleUp ''/srv/app'' ''docker''
                      [''compose'', ''-f'', ''/srv/app/docker-compose.yml'', ''up'', ''-d'', ''--no-deps'',
                       ''--scale'', ''web=2'', ''--no-recreate'', ''web''],
                    SettleWait,
                    Exec ScaleDown ''/srv/app'' ''docker''
                      [''compose'', ''-f'', ''/srv/app/docker-compose.yml'', ''up'', ''-d'',
                       ''--scale'', ''web=1'', ''--no-recreate'', ''web'']]"
  let ?s4 = "\<lparr>world = 4::nat, trace = ?t4\<rparr>"
  let ?s5 = "\<lparr>world = 5::nat, trace = ?t5\<rparr>"
  let ?s6 = "\<lparr>world = 6::nat, trace = ?t6\<rparr>"
  let ?s9 = "\<lparr>world = 9::nat, trace = ?t9\<rparr>"
  have i: "ensureCloned ?E ready_repo start = (Inr (), ready_repo, start)"
    by (simp add: ensureCloned_def ready_repo_def)
  have l: "ctx_Err ?E (world start) = None" "ctx_Err ?E (world ?s4) = None"
    "ctx_Err ?E (world ?s5) = None" "ctx_Err ?E (world ?s6) = None"
    "ctx_Err ?E (world ?s9) = Some Canceled"
    by (simp_all add: update_env_def scripted_env_def start_def)
  have c: "CheckForUpdates ?E ready_repo start = (Inr True, ready_repo, ?s4)"
    by (simp add: update_env_def step_defs runner_defs fixture_defs)
  have p: "PullChanges ?E ready_repo ?s4 = (Inr (), ready_repo, ?s5)"
    by (simp add: update_env_def step_defs runner_defs fixture_defs)
  have b: "BuildContainers ?E ready_repo ?s5 = (Inr (), ready_repo, ?s6)"
    by (simp add: update_env_def step_defs runner_defs fixture_defs)
  have d: "DeployContainers ?E ready_repo ?s6 = (Inr (), ready_repo, ?s9)"
    by (simp add: update_env_def step_defs runner_defs fixture_defs)
  have full: "Process ?E ready_repo start = (Inl (ErrContext Canceled), ready_repo, ?s9)"
    using Process_cancelled_after_success [where env = ?E and r = ready_repo and \<sigma> = start
        and ?r1.0 = ready_repo and ?\<sigma>1.0 = start and found = True
        and ?r2.0 = ready_repo and ?\<sigma>2.0 = ?s4 and ?r3.0 = ready_repo and ?\<sigma>3.0 = ?s5
        and ?r4.0 = ready_repo and ?\<sigma>4.0 = ?s6 and ?r5.0 = ready_repo and ?\<sigma>5.0 = ?s9
        and ce = Canceled] i l c p b d
    by simp
  let ?H = "update_env [] 5"
  have hi: "ensureCloned ?H ready_repo start = (Inr (), ready_repo, start)"
    by (simp add: ensureCloned_def ready_repo_def)
  have hl: "ctx_Err ?H (world start) = None" "ctx_Err ?H (world ?s4) = None"
    "ctx_Err ?H (world ?s5) = Some Canceled"
    by (simp_all add: update_env_def scripted_env_def start_def)
  have hc: "CheckForUpdates ?H ready_repo start = (Inr True, ready_repo, ?s4)"
    by (simp add: update_env_def step_defs runner_defs fixture_defs)
  have hp: "PullChanges ?H ready_repo ?s4 = (Inr (), ready_repo, ?s5)"
    by (simp add: update_env_def step_defs runner_defs fixture_defs)
  have pulled: "Process ?H ready_repo start = (Inl (ErrContext Canceled), ready_repo, ?s5)"
    using Process_cancelled_after_success [where env = ?H and r = ready_repo and \<sigma> = start
        and ?r1.0 = ready_repo and ?\<sigma>1.0 = start and found = True
        and ?r2.0 = ready_repo and ?\<sigma>2.0 = ?s4 and ?r3.0 = ready_repo and ?\<sigma>3.0 = ?s5
        and ce = Canceled] hi hl hc hp
    by simp
  show ?thesis by (simp add: full pulled)
qed

section \<open>ensure-initialized\<close>

lemma getWorkingPath_flag:
  "getWorkingPath env r w = (pr, r1) \<Longrightarrow> isInitialised r1 = isInitialised r"
  by (auto simp: getWorkingPath_def Let_def split: if_splits sum.splits)

lemma runClone_flag:
  "runClone env r \<sigma> = (res, r1, \<sigma>1) \<Longrightarrow> \<not> isInitialised r \<Longrightarrow>
   isInitialised r1 \<longleftrightarrow> res = Inr ()"
  by (auto simp: runClone_def Let_def split: prod.splits option.splits if_splits)

lemma ensureCloned_flag:
  assumes "ensureCloned env r \<sigma> = (res, r1, \<sigma>1)"
  shows "isInitialised r1 \<longleftrightarrow> res = Inr ()"
proof (cases "isInitialised r")
  case True
  with assms show ?thesis by (auto simp: ensureCloned_def)
next
  case False
  obtain pr r0 where wp: "getWorkingPath env r (world \<sigma>) = (pr, r0)"
    by (cases "getWorkingPath env r (world \<sigma>)")
  have r0: "\<not> isInitialised r0" using getWorkingPath_flag [OF wp] False by simp
  show ?thesis
    using assms False wp r0
    by (auto simp: ensureCloned_def Let_def
             split: prod.splits option.splits if_splits sum.splits
             dest: runClone_flag)
qed

lemma single_clone:
  assumes "extends 0 0 \<sigma> \<sigma>'"
  shows "count_site Clone (new_events \<sigma> \<sigma>') \<le> 1"
proof -
  let ?xs = "sites (new_events \<sigma> \<sigma>')"
  have s: "sorted_wrt (<) (map site_rank ?xs)" and z: "list_all (\<lambda>s. site_rank s = 0) ?xs"
    using assms by (simp_all add: extends_def)
  have "length ?xs \<le> 1"
  proof (cases ?xs)
    case Nil
    then show ?thesis by simp
  next
    case (Cons x ys)
    then show ?thesis using s z by (cases ys) simp_all
  qed
  then show ?thesis
    unfolding count_site_def using length_filter_le le_trans by blast
qed

lemma runClone_failure:
  "runClone env r \<sigma> = (Inl e, r1, \<sigma>1) \<Longrightarrow> clone_failed (Inl e)"
  by (auto simp: runClone_def Let_def split: prod.splits option.splits if_splits)

lemma ensureCloned_no_clone:
  assumes "ensureCloned env r \<sigma> = (Inl e, r1, \<sigma>1)" and "\<not> clone_failed (Inl e)"
  shows "trace \<sigma>1 = trace \<sigma>"
  using assms
  by (auto simp: ensureCloned_def Let_def
           split: prod.splits option.splits if_splits sum.splits
           dest: runClone_failure)

lemma count_site_append: "count_site st (xs @ ys) = count_site st xs + count_site st ys"
  by (simp add: count_site_def sites_append)

text \<open>
  C5, as the code has it. A call of \<open>ensureCloned\<close> on an initialised controller returns
  success at once and leaves the controller and the world as they are (no command). Every
  call issues the clone command at most once. When the first of two calls in sequence
  succeeds, the second does nothing; and unless the clone of the first call fails, the two
  calls issue the clone command at most once in total. A call that fails (a failed clone
  among the causes) leaves the initialised flag false.
\<close>

theorem ensureCloned_idempotent:
  "(isInitialised r \<longrightarrow> ensureCloned env r \<sigma> = (Inr (), r, \<sigma>)) \<and>
   (ensureCloned env r \<sigma> = (res1, r1, \<sigma>1) \<longrightarrow> ensureCloned env r1 \<sigma>1 = (res2, r2, \<sigma>2) \<longrightarrow>
      count_site Clone (new_events \<sigma> \<sigma>1) \<le> 1 \<and>
      count_site Clone (new_events \<sigma>1 \<sigma>2) \<le> 1 \<and>
      (res1 = Inr () \<longrightarrow> res2 = Inr () \<and> r2 = r1 \<and> \<sigma>2 = \<sigma>1) \<and>
      (\<not> clone_failed res1 \<longrightarrow> count_site Clone (new_events \<sigma> \<sigma>2) \<le> 1) \<and>
      (res1 = Inl e \<longrightarrow> \<not> isInitialised r1))"
proof -
  have a: "isInitialised r \<Longrightarrow> ensureCloned env r \<sigma> = (Inr (), r, \<sigma>)"
    by (simp add: ensureCloned_def)
  have b: "count_site Clone (new_events \<sigma> \<sigma>1) \<le> 1 \<and>
      count_site Clone (new_events \<sigma>1 \<sigma>2) \<le> 1 \<and>
      (res1 = Inr () \<longrightarrow> res2 = Inr () \<and> r2 = r1 \<and> \<sigma>2 = \<sigma>1) \<and>
      (\<not> clone_failed res1 \<longrightarrow> count_site Clone (new_events \<sigma> \<sigma>2) \<le> 1) \<and>
      (res1 = Inl e \<longrightarrow> \<not> isInitialised r1)"
    if one: "ensureCloned env r \<sigma> = (res1, r1, \<sigma>1)" and two: "ensureCloned env r1 \<sigma>1 = (res2, r2, \<sigma>2)"
  proof -
    note x1 = ensureCloned_extends [OF one] and x2 = ensureCloned_extends [OF two]
    have c1: "count_site Clone (new_events \<sigma> \<sigma>1) \<le> 1" by (rule single_clone [OF x1])
    have c2: "count_site Clone (new_events \<sigma>1 \<sigma>2) \<le> 1" by (rule single_clone [OF x2])
    have total: "count_site Clone (new_events \<sigma> \<sigma>2) =
        count_site Clone (new_events \<sigma> \<sigma>1) + count_site Clone (new_events \<sigma>1 \<sigma>2)"
      by (simp add: new_events_append [OF x1 x2] count_site_append)
    have ok: "res2 = Inr () \<and> r2 = r1 \<and> \<sigma>2 = \<sigma>1" if "res1 = Inr ()"
    proof -
      have "isInitialised r1" using ensureCloned_flag [OF one] that by simp
      then show ?thesis using two by (simp add: ensureCloned_def)
    qed
    have bad: "\<not> isInitialised r1" if "res1 = Inl e"
      using ensureCloned_flag [OF one] that by simp
    have once: "count_site Clone (new_events \<sigma> \<sigma>2) \<le> 1" if quiet: "\<not> clone_failed res1"
    proof (cases res1)
      case (Inl e1)
      then have "trace \<sigma>1 = trace \<sigma>"
        using ensureCloned_no_clone [of env r \<sigma> e1 r1 \<sigma>1] one quiet by simp
      then have "new_events \<sigma> \<sigma>1 = []" by (simp add: new_events_def)
      then show ?thesis using total c2 by (simp add: count_site_def)
    next
      case (Inr u)
      then have "\<sigma>2 = \<sigma>1" using ok by simp
      then have "new_events \<sigma>1 \<sigma>2 = []" by (simp add: new_events_def)
      then show ?thesis using total c1 by (simp add: count_site_def)
    qed
    show ?thesis using c1 c2 ok bad once by auto
  qed
  show ?thesis using a b by blast
qed

theorem ensureCloned_idempotent_witness:
  "sites (trace (snd (snd
     (ensureCloned (clone_env (ok_outcome []))
        (fst (snd (ensureCloned (clone_env (ok_outcome [])) (NewRepository demo_config) start)))
        (snd (snd (ensureCloned (clone_env (ok_outcome [])) (NewRepository demo_config) start))))))) =
     [Clone] \<and>
   \<not> isInitialised (fst (snd
     (ensureCloned (clone_env (exit_outcome 128 ''unreachable'')) (NewRepository demo_config) start)))"
proof -
  let ?E = "clone_env (ok_outcome [])"
  let ?F = "clone_env (exit_outcome 128 ''unreachable'')"
  let ?c = "Exec Clone ''/srv'' ''git'' [''clone'', ''-b'', ''main'', ''https://example.org/app.git'', ''app'']"
  let ?r1 = "\<lparr>Config = demo_config, workingPath = ''/srv/app'', isInitialised = True\<rparr>"
  let ?s1 = "\<lparr>world = 3::nat, trace = [?c]\<rparr>"
  let ?two = "ensureCloned ?E ?r1 ?s1"
  let ?bad = "ensureCloned ?F (NewRepository demo_config) start"
  have one: "ensureCloned ?E (NewRepository demo_config) start = (Inr (), ?r1, ?s1)"
    by (simp add: clone_env_def NewRepository_def runClone_def step_defs runner_defs fixture_defs)
  have two: "?two = (fst ?two, fst (snd ?two), snd (snd ?two))" by simp
  have same: "snd (snd ?two) = ?s1"
    using ensureCloned_idempotent [where env = ?E and r = "NewRepository demo_config" and \<sigma> = start
        and ?res1.0 = "Inr ()" and ?r1.0 = ?r1 and ?\<sigma>1.0 = ?s1
        and ?res2.0 = "fst ?two" and ?r2.0 = "fst (snd ?two)" and ?\<sigma>2.0 = "snd (snd ?two)"]
      one two by simp
  let ?e = "ErrCloneExecution
            (CommandFailed ''git'' [''clone'', ''-b'', ''main'', ''https://example.org/app.git'', ''app'']
               128 (ExitError (Some 128)) ''unreachable'')"
  let ?r0 = "\<lparr>Config = demo_config, workingPath = ''/srv/app'', isInitialised = False\<rparr>"
  let ?again = "ensureCloned ?F ?r0 ?s1"
  have bad: "?bad = (Inl ?e, ?r0, ?s1)"
    by (simp add: clone_env_def NewRepository_def runClone_def step_defs runner_defs fixture_defs)
  have again: "?again = (fst ?again, fst (snd ?again), snd (snd ?again))" by simp
  have "\<not> isInitialised ?r0"
    using ensureCloned_idempotent [where env = ?F and r = "NewRepository demo_config" and \<sigma> = start
        and ?res1.0 = "Inl ?e" and ?r1.0 = ?r0 and ?\<sigma>1.0 = ?s1
        and ?res2.0 = "fst ?again" and ?r2.0 = "fst (snd ?again)" and ?\<sigma>2.0 = "snd (snd ?again)"
        and e = ?e]
      bad again by simp
  then have flag: "\<not> isInitialised (fst (snd ?bad))"
    by (simp add: bad)
  show ?thesis
    using same flag by (simp add: one)
qed

text \<open>
  C5, as stated, fails. Here no working copy exists and the clone command fails: the
  first call leaves the controller uninitialised, the second call finds no working copy
  either and runs the clone command again, so the two calls in sequence issue it twice.
\<close>

theorem ensureCloned_idempotent_counterexample:
  "fst (ensureCloned (clone_env (exit_outcome 128 ''unreachable'')) (NewRepository demo_config) start) =
     Inl (ErrCloneExecution
            (CommandFailed ''git'' [''clone'', ''-b'', ''main'', ''https://example.org/app.git'', ''app'']
               128 (ExitError (Some 128)) ''unreachable'')) \<and>
   sites (trace (snd (snd
     (ensureCloned (clone_env (exit_outcome 128 ''unreachable''))
        (fst (snd (ensureCloned (clone_env (exit_outcome 128 ''unreachable'')) (NewRepository demo_config) start)))
        (snd (snd (ensureCloned (clone_env (exit_outcome 128 ''unreachable'')) (NewRepository demo_config) start))))))) =
     [Clone, Clone]"
proof -
  let ?E = "clone_env (exit_outcome 128 ''unreachable'')"
  let ?c = "Exec Clone ''/srv'' ''git'' [''clone'', ''-b'', ''main'', ''https://example.org/app.git'', ''app'']"
  let ?e = "ErrCloneExecution
            (CommandFailed ''git'' [''clone'', ''-b'', ''main'', ''https://example.org/app.git'', ''app'']
               128 (ExitError (Some 128)) ''unreachable'')"
  let ?r1 = "\<lparr>Config = demo_config, workingPath = ''/srv/app'', isInitialised = False\<rparr>"
  have one: "ensureCloned ?E (NewRepository demo_config) start = (Inl ?e, ?r1, \<lparr>world = 3, trace = [?c]\<rparr>)"
    by (simp add: clone_env_def NewRepository_def runClone_def step_defs runner_defs fixture_defs)
  have two: "ensureCloned ?E ?r1 \<lparr>world = 3, trace = [?c]\<rparr> = (Inl ?e, ?r1, \<lparr>world = 6, trace = [?c, ?c]\<rparr>)"
    by (simp add: clone_env_def runClone_def step_defs runner_defs fixture_defs)
  show ?thesis
    by (simp add: one two)
qed

section \<open>Loading the configuration\<close>

lemma apply_defaults_map:
  "apply_defaults i rs = Inr rs' \<Longrightarrow>
   rs' = map (\<lambda>a. a\<lparr>ComposeFile := (if ComposeFile a = [] then ''docker-compose.yml'' else ComposeFile a),
                     CheckIntervalSeconds := (if CheckIntervalSeconds a \<le> 0 then 300 else CheckIntervalSeconds a)\<rparr>) rs"
proof (induction rs arbitrary: i rs')
  case Nil
  then show ?case by simp
next
  case (Cons a rs)
  then show ?case
    by (auto simp: Let_def DefaultComposeFile_def DefaultCheckIntervalSeconds_def
             split: if_splits sum.splits)
qed

text \<open>
  C8. When \<open>LoadConfig\<close> succeeds, the loaded configuration has the entries of the parsed
  file in the same order, each with its manifest file name replaced by
  \<open>docker-compose.yml\<close> if it was empty (unset), its poll interval replaced by 300 if it
  was zero (unset) or negative, and every other field as parsed.
\<close>

theorem LoadConfig_defaults:
  assumes loaded: "LoadConfig ce filePath = Inr loaded"
    and abs: "cfg_Abs ce filePath = Inr absPath"
    and rd: "cfg_ReadFile ce absPath = Inr data"
    and parsed: "cfg_Unmarshal ce data = Inr parsed"
  shows "length (Repositories loaded) = length (Repositories parsed) \<and>
         (\<forall>i < length (Repositories parsed).
            Repositories loaded ! i = (Repositories parsed ! i)
              \<lparr>ComposeFile :=
                 (if ComposeFile (Repositories parsed ! i) = [] then ''docker-compose.yml''
                  else ComposeFile (Repositories parsed ! i)),
               CheckIntervalSeconds :=
                 (if CheckIntervalSeconds (Repositories parsed ! i) \<le> 0 then 300
                  else CheckIntervalSeconds (Repositories parsed ! i))\<rparr>)"
proof -
  obtain repos where d: "apply_defaults 0 (Repositories parsed) = Inr repos"
    and l: "loaded = parsed\<lparr>Repositories := repos\<rparr>"
    using loaded abs rd parsed by (auto simp: LoadConfig_def split: if_splits sum.splits)
  show ?thesis
    using apply_defaults_map [OF d] l by simp
qed

theorem LoadConfig_defaults_witness:
  "LoadConfig demo_config_env ''rivet.yaml'' =
     Inr \<lparr>Repositories =
         [demo_config\<lparr>ComposeFile := ''docker-compose.yml'', CheckIntervalSeconds := 300\<rparr>,
          demo_config\<lparr>ComposeFile := ''stack.yml'', CheckIntervalSeconds := 300\<rparr>,
          demo_config\<lparr>ComposeFile := ''docker-compose.yml'', CheckIntervalSeconds := 60\<rparr>]\<rparr>"
proof -
  let ?parsed = "\<lparr>Repositories =
         [demo_config\<lparr>ComposeFile := [], CheckIntervalSeconds := 0\<rparr>,
          demo_config\<lparr>ComposeFile := ''stack.yml'', CheckIntervalSeconds := - 5\<rparr>,
          demo_config\<lparr>ComposeFile := [], CheckIntervalSeconds := 60\<rparr>]\<rparr>"
  obtain loaded where ok: "LoadConfig demo_config_env ''rivet.yaml'' = Inr loaded"
    by (simp add: LoadConfig_def demo_config_env_def demo_config_def Let_def)
  have abs: "cfg_Abs demo_config_env ''rivet.yaml'' = Inr ''/etc/rivet/rivet.yaml''"
    and rd: "cfg_ReadFile demo_config_env ''/etc/rivet/rivet.yaml'' = Inr ''repositories: ...''"
    and parsed: "cfg_Unmarshal demo_config_env ''repositories: ...'' = Inr ?parsed"
    by (simp_all add: demo_config_env_def)
  note d = LoadConfig_defaults [OF ok abs rd parsed]
  have len: "length (Repositories loaded) = 3" using d by simp
  have e0: "Repositories loaded ! 0 = demo_config\<lparr>ComposeFile := ''docker-compose.yml'', CheckIntervalSeconds := 300\<rparr>"
    and e1: "Repositories loaded ! 1 = demo_config\<lparr>ComposeFile := ''stack.yml'', CheckIntervalSeconds := 300\<rparr>"
    and e2: "Repositories loaded ! 2 = demo_config\<lparr>ComposeFile := ''docker-compose.yml'', CheckIntervalSeconds := 60\<rparr>"
    using d by (simp_all add: demo_config_def)
  obtain a b c where abc: "Repositories loaded = [a, b, c]"
    using len by (auto simp: numeral_3_eq_3 length_Suc_conv)
  have "Repositories loaded =
         [demo_config\<lparr>ComposeFile := ''docker-compose.yml'', CheckIntervalSeconds := 300\<rparr>,
          demo_config\<lparr>ComposeFile := ''stack.yml'', CheckIntervalSeconds := 300\<rparr>,
          demo_config\<lparr>ComposeFile := ''docker-compose.yml'', CheckIntervalSeconds := 60\<rparr>]"
    using e0 e1 e2 unfolding abc by simp
  then show ?thesis using ok by (cases loaded) simp
qed

section \<open>The monitoring loop\<close>

lemma Process_stops_after_init:
  assumes cyc: "ensureCloned env r \<sigma> = (a, r1, \<sigma>1)"
    and still: "ctx_Err env (world \<sigma>1) = Some ce"
  shows "Process env r \<sigma> =
           ((case a of Inl e \<Rightarrow> Inl (ErrInitialize e) | Inr u \<Rightarrow> Inl (ErrContext ce)), r1, \<sigma>1)"
  using assms by (simp add: Process_def split: sum.splits)

text \<open>
  C9, as the code has it. Let the context be cancelled in the world where the wait for
  the next tick ends. When the tick is not ready, or the \<open>select\<close> picks the
  cancellation, the loop exits at once: no other cycle, no command, whatever the
  controller. When the tick is ready and the \<open>select\<close> picks it, one more cycle is
  started. It runs \<open>ensureCloned\<close>, which issues at most the clone command, and none for
  an initialised controller, which it leaves as it is. With the context still cancelled
  when \<open>ensureCloned\<close> returns (a Go context never leaves the cancelled state; the
  environment here is arbitrary, so this is stated), \<open>Process\<close> stops there, with the
  initialisation error or with the cancellation error of its first check, and the loop
  exits with the state \<open>ensureCloned\<close> has left.
\<close>

theorem monitor_loop_cancelled_tick:
  assumes wait: "await_tick env (world \<sigma>) = ((ready, pick), w1)"
    and cancelled: "ctx_Err env w1 = Some ce"
    and cyc: "ensureCloned env r \<lparr>world = w1, trace = trace \<sigma> @ [TickWait, Cycle]\<rparr> = (a, r1, \<sigma>1)"
  shows "(\<not> ready \<or> pick = DoneCase \<longrightarrow>
            monitor_loop env r \<sigma> = Some (r, \<lparr>world = w1, trace = trace \<sigma> @ [TickWait]\<rparr>)) \<and>
         (ready \<and> pick = ChanCase \<longrightarrow> ctx_Err env (world \<sigma>1) = Some ce1 \<longrightarrow>
            Process env r \<lparr>world = w1, trace = trace \<sigma> @ [TickWait, Cycle]\<rparr> =
              ((case a of Inl e \<Rightarrow> Inl (ErrInitialize e) | Inr u \<Rightarrow> Inl (ErrContext ce1)), r1, \<sigma>1) \<and>
            monitor_loop env r \<sigma> = Some (r1, \<sigma>1) \<and>
            extends 0 0 \<lparr>world = w1, trace = trace \<sigma> @ [TickWait, Cycle]\<rparr> \<sigma>1) \<and>
         (isInitialised r \<longrightarrow>
            a = Inr () \<and> r1 = r \<and> \<sigma>1 = \<lparr>world = w1, trace = trace \<sigma> @ [TickWait, Cycle]\<rparr>)"
proof -
  let ?c = "\<lparr>world = w1, trace = trace \<sigma> @ [TickWait, Cycle]\<rparr>"
  have tick: "select_tick env \<sigma> =
      (go_select ready True pick, \<lparr>world = w1, trace = trace \<sigma> @ [TickWait]\<rparr>)"
    using wait cancelled by (simp add: select_tick_def)
  have quiet: "monitor_loop env r \<sigma> = Some (r, \<lparr>world = w1, trace = trace \<sigma> @ [TickWait]\<rparr>)"
    if "\<not> ready \<or> pick = DoneCase"
    using that tick by (subst monitor_loop.simps) (auto simp: go_select_def)
  have extra: "Process env r ?c =
              ((case a of Inl e \<Rightarrow> Inl (ErrInitialize e) | Inr u \<Rightarrow> Inl (ErrContext ce1)), r1, \<sigma>1) \<and>
            monitor_loop env r \<sigma> = Some (r1, \<sigma>1) \<and> extends 0 0 ?c \<sigma>1"
    if picked: "ready \<and> pick = ChanCase" and still: "ctx_Err env (world \<sigma>1) = Some ce1"
  proof -
    note p = Process_stops_after_init [OF cyc still]
    have "monitor_loop env r \<sigma> = Some (r1, \<sigma>1)"
      using picked tick p still
      by (subst monitor_loop.simps) (simp add: go_select_def start_cycle_def)
    then show ?thesis using p ensureCloned_extends [OF cyc] by simp
  qed
  have same: "a = Inr () \<and> r1 = r \<and> \<sigma>1 = ?c" if "isInitialised r"
    using that cyc by (simp add: ensureCloned_def)
  show ?thesis using quiet extra same by blast
qed

theorem monitor_loop_cancelled_tick_witness:
  "monitor_loop (race_env True DoneCase) ready_repo start =
     Some (ready_repo, \<lparr>world = 1, trace = [TickWait]\<rparr>) \<and>
   monitor_loop (race_env False ChanCase) (NewRepository demo_config) start =
     Some (NewRepository demo_config, \<lparr>world = 1, trace = [TickWait]\<rparr>) \<and>
   monitor_loop (race_env True ChanCase) ready_repo start =
     Some (ready_repo, \<lparr>world = 1, trace = [TickWait, Cycle]\<rparr>) \<and>
   monitor_loop race_fresh_env (NewRepository demo_config) start =
     Some (\<lparr>Config = demo_config, workingPath = ''/srv/app'', isInitialised = False\<rparr>,
           \<lparr>world = 4,
            trace = [TickWait, Cycle,
                     Exec Clone ''/srv'' ''git''
                       [''clone'', ''-b'', ''main'', ''https://example.org/app.git'', ''app'']]\<rparr>)"
proof -
  let ?c = "\<lparr>world = 1::nat, trace = trace start @ [TickWait, Cycle]\<rparr>"
  have w: "await_tick (race_env ready pick) (world start) = ((ready, pick), 1)" for ready pick
    by (simp add: race_env_def scripted_env_def start_def)
  have c: "ctx_Err (race_env ready pick) 1 = Some Canceled" for ready pick
    by (simp add: race_env_def scripted_env_def)
  have e: "ensureCloned env r ?c = (fst (ensureCloned env r ?c), fst (snd (ensureCloned env r ?c)),
      snd (snd (ensureCloned env r ?c)))" for env :: "nat env" and r
    by simp
  have one: "monitor_loop (race_env True DoneCase) ready_repo start =
     Some (ready_repo, \<lparr>world = 1, trace = [TickWait]\<rparr>)"
    using monitor_loop_cancelled_tick [OF w c e, of True DoneCase ready_repo]
    by (simp add: start_def)
  have two: "monitor_loop (race_env False ChanCase) (NewRepository demo_config) start =
     Some (NewRepository demo_config, \<lparr>world = 1, trace = [TickWait]\<rparr>)"
    using monitor_loop_cancelled_tick [OF w c e, of False ChanCase "NewRepository demo_config"]
    by (simp add: start_def)
  have k: "ensureCloned (race_env True ChanCase) ready_repo ?c = (Inr (), ready_repo, ?c)"
    by (simp add: ensureCloned_def ready_repo_def)
  have picked: "monitor_loop (race_env True ChanCase) ready_repo start =
     Some (ready_repo, \<lparr>world = 1, trace = [TickWait, Cycle]\<rparr>)"
    using monitor_loop_cancelled_tick [OF w c k, of Canceled] c [of True ChanCase]
    by (simp add: start_def)
  let ?r0 = "\<lparr>Config = demo_config, workingPath = ''/srv/app'', isInitialised = False\<rparr>"
  let ?s = "\<lparr>world = 4::nat,
            trace = [TickWait, Cycle,
                     Exec Clone ''/srv'' ''git''
                       [''clone'', ''-b'', ''main'', ''https://example.org/app.git'', ''app'']]\<rparr>"
  have fw: "await_tick race_fresh_env (world start) = ((True, ChanCase), 1)"
    and fc: "ctx_Err race_fresh_env 1 = Some Canceled"
    and fs: "ctx_Err race_fresh_env (world ?s) = Some Canceled"
    by (simp_all add: race_fresh_env_def scripted_env_def start_def)
  have fe: "ensureCloned race_fresh_env (NewRepository demo_config) ?c =
      (Inl (ErrCloneExecution
         (FailedToRun ''git'' [''clone'', ''-b'', ''main'', ''https://example.org/app.git'', ''app'']
            (OtherRunError ''executable file not found'') [])), ?r0, ?s)"
    by (simp add: race_fresh_env_def NewRepository_def runClone_def step_defs runner_defs fixture_defs)
  have three: "monitor_loop race_fresh_env (NewRepository demo_config) start = Some (?r0, ?s)"
    using monitor_loop_cancelled_tick [OF fw fc fe, of Canceled] fs by simp
  show ?thesis using one two picked three by simp
qed

text \<open>
  C9, as stated, fails: with the tick and the cancellation both ready and the tick picked,
  the loop starts another process-once cycle before it exits; for a controller that is not
  initialised yet, that cycle goes as far as the clone command.
\<close>

theorem monitor_loop_cancelled_tick_counterexample:
  "ctx_Err (race_env True ChanCase) (world start) = None \<and>
   await_tick (race_env True ChanCase) (world start) = ((True, ChanCase), 1) \<and>
   ctx_Err (race_env True ChanCase) 1 = Some Canceled \<and>
   monitor_loop (race_env True ChanCase) ready_repo start =
     Some (ready_repo, \<lparr>world = 1, trace = [TickWait, Cycle]\<rparr>) \<and>
   await_tick race_fresh_env (world start) = ((True, ChanCase), 1) \<and>
   ctx_Err race_fresh_env 1 = Some Canceled \<and>
   monitor_loop race_fresh_env (NewRepository demo_config) start =
     Some (\<lparr>Config = demo_config, workingPath = ''/srv/app'', isInitialised = False\<rparr>,
           \<lparr>world = 4,
            trace = [TickWait, Cycle,
                     Exec Clone ''/srv'' ''git''
                       [''clone'', ''-b'', ''main'', ''https://example.org/app.git'', ''app'']]\<rparr>)"
proof -
  have a: "monitor_loop (race_env True ChanCase) ready_repo start =
     Some (ready_repo, \<lparr>world = 1, trace = [TickWait, Cycle]\<rparr>)"
    by (subst monitor_loop.simps)
       (simp add: race_env_def scripted_env_def start_def ready_repo_def
          select_tick_def go_select_def Process_def ensureCloned_def start_cycle_def)
  have b: "monitor_loop race_fresh_env (NewRepository demo_config) start =
     Some (\<lparr>Config = demo_config, workingPath = ''/srv/app'', isInitialised = False\<rparr>,
           \<lparr>world = 4,
            trace = [TickWait, Cycle,
                     Exec Clone ''/srv'' ''git''
                       [''clone'', ''-b'', ''main'', ''https://example.org/app.git'', ''app'']]\<rparr>)"
    by (subst monitor_loop.simps)
       (simp add: race_fresh_env_def NewRepository_def runClone_def select_tick_def start_cycle_def
          Process_def step_defs runner_defs fixture_defs)
  show ?thesis
    using a b by (simp add: race_env_def race_fresh_env_def scripted_env_def start_def)
qed

end
